theory Spec2Isabelle
  imports Main "HOL-Library.Word"
begin

section \<open>Levels (types.go)\<close>

text \<open>
  \<^verbatim>\<open>type Level int8\<close> with \<^verbatim>\<open>DebugLevel Level = iota - 1\<close>: the five named
  levels are the signed bytes -1, 0, 1, 2, 3. Any other byte is a value of the type as
  well (\<^verbatim>\<open>Level(7)\<close>), so the model keeps the machine type.
\<close>

type_synonym Level = "8 word"

definition DebugLevel :: Level where "DebugLevel = - 1"
definition InfoLevel :: Level where "InfoLevel = 0"
definition WarnLevel :: Level where "WarnLevel = 1"
definition ErrorLevel :: Level where "ErrorLevel = 2"
definition FatalLevel :: Level where "FatalLevel = 3"

lemmas Level_defs = DebugLevel_def InfoLevel_def WarnLevel_def ErrorLevel_def FatalLevel_def

text \<open>\<^verbatim>\<open>func (l Level) String() string\<close>: a switch with a default.\<close>

definition Level_String :: "Level \<Rightarrow> string" where
  "Level_String l =
     (if l = DebugLevel then ''debug''
      else if l = InfoLevel then ''info''
      else if l = WarnLevel then ''warn''
      else if l = ErrorLevel then ''error''
      else if l = FatalLevel then ''fatal''
      else ''unknown'')"

text \<open>\<^verbatim>\<open>func ParseLevel(s string) Level\<close>: a switch on the exact string.\<close>

definition ParseLevel :: "string \<Rightarrow> Level" where
  "ParseLevel s =
     (if s = ''debug'' then DebugLevel
      else if s = ''info'' then InfoLevel
      else if s = ''warn'' then WarnLevel
      else if s = ''error'' then ErrorLevel
      else if s = ''fatal'' then FatalLevel
      else InfoLevel)"

section \<open>Configuration (types.go) and the factory's merge (factory.go)\<close>

record ConsoleOutputConfig =
  Console_Enabled :: bool

record FileOutputConfig =
  File_Enabled :: bool
  File_Path :: string
  File_MaxSize :: int
  File_MaxBackups :: int
  File_MaxAge :: int
  File_Compress :: bool

record RemoteOutputConfig =
  Remote_Enabled :: bool
  Remote_Endpoint :: string
  Remote_Protocol :: string
  Remote_BatchSize :: int
  Remote_Timeout :: int
  Remote_TLS :: bool

record OutputConfig =
  Console :: ConsoleOutputConfig
  File :: FileOutputConfig
  Remote :: RemoteOutputConfig

record TracingConfig =
  Tracing_Enabled :: bool

record LoggerConfig =
  Level :: Level
  Format :: string
  ServiceName :: string
  Version :: string
  Environment :: string
  Output :: OutputConfig
  Tracing :: TracingConfig

text \<open>Go's zero values, which a composite literal leaves in every field it omits.\<close>

definition zero_FileOutputConfig :: FileOutputConfig where
  "zero_FileOutputConfig =
     \<lparr>File_Enabled = False, File_Path = [], File_MaxSize = 0, File_MaxBackups = 0,
      File_MaxAge = 0, File_Compress = False\<rparr>"

definition zero_RemoteOutputConfig :: RemoteOutputConfig where
  "zero_RemoteOutputConfig =
     \<lparr>Remote_Enabled = False, Remote_Endpoint = [], Remote_Protocol = [],
      Remote_BatchSize = 0, Remote_Timeout = 0, Remote_TLS = False\<rparr>"

definition zero_OutputConfig :: OutputConfig where
  "zero_OutputConfig =
     \<lparr>Console = \<lparr>Console_Enabled = False\<rparr>, File = zero_FileOutputConfig,
      Remote = zero_RemoteOutputConfig\<rparr>"

definition zero_LoggerConfig :: LoggerConfig where
  "zero_LoggerConfig =
     \<lparr>Level = 0, Format = [], ServiceName = [], Version = [], Environment = [],
      Output = zero_OutputConfig, Tracing = \<lparr>Tracing_Enabled = False\<rparr>\<rparr>"

text \<open>\<^verbatim>\<open>func DefaultLoggerConfig() LoggerConfig\<close>\<close>

definition DefaultLoggerConfig :: LoggerConfig where
  "DefaultLoggerConfig =
     \<lparr>Level = InfoLevel, Format = ''console'', ServiceName = ''unknown-service'',
      Version = ''1.0.0'', Environment = ''development'',
      Output = \<lparr>Console = \<lparr>Console_Enabled = True\<rparr>,
                File = zero_FileOutputConfig\<lparr>File_Enabled := False\<rparr>,
                Remote = zero_RemoteOutputConfig\<lparr>Remote_Enabled := False\<rparr>\<rparr>,
      Tracing = \<lparr>Tracing_Enabled = False\<rparr>\<rparr>"

record LoggerFactory =
  defaultConfig :: LoggerConfig

text \<open>\<^verbatim>\<open>func NewLoggerFactory() *LoggerFactory\<close>; the package's
  \<^verbatim>\<open>defaultFactory\<close> is this value, and \<^verbatim>\<open>defaultConfig\<close> is written nowhere else.\<close>

definition NewLoggerFactory :: LoggerFactory where
  "NewLoggerFactory = \<lparr>defaultConfig = DefaultLoggerConfig\<rparr>"

text \<open>
  \<^verbatim>\<open>func (f *LoggerFactory) mergeWithDefaults(config LoggerConfig) LoggerConfig\<close>:
  \<^verbatim>\<open>result := f.defaultConfig\<close>, then one guarded assignment after the other, in the
  source's order.
\<close>

definition mergeWithDefaults :: "LoggerFactory \<Rightarrow> LoggerConfig \<Rightarrow> LoggerConfig" where
  "mergeWithDefaults f config =
     (let result = defaultConfig f;
          result = (if Level config \<noteq> 0 then result\<lparr>Level := Level config\<rparr> else result);
          result = (if Format config \<noteq> [] then result\<lparr>Format := Format config\<rparr> else result);
          result = (if ServiceName config \<noteq> []
                    then result\<lparr>ServiceName := ServiceName config\<rparr> else result);
          result = (if Version config \<noteq> [] then result\<lparr>Version := Version config\<rparr> else result);
          result = (if Environment config \<noteq> []
                    then result\<lparr>Environment := Environment config\<rparr> else result);
          result = (if Console_Enabled (Console (Output config))
                    then result\<lparr>Output := (Output result)\<lparr>Console := Console (Output config)\<rparr>\<rparr>
                    else result);
          result = (if File_Enabled (File (Output config))
                    then result\<lparr>Output := (Output result)\<lparr>File := File (Output config)\<rparr>\<rparr>
                    else result);
          result = (if Remote_Enabled (Remote (Output config))
                    then result\<lparr>Output := (Output result)\<lparr>Remote := Remote (Output config)\<rparr>\<rparr>
                    else result);
          result = (if Tracing_Enabled (Tracing config)
                    then result\<lparr>Tracing := Tracing config\<rparr> else result)
      in result)"

text \<open>The configuration literal of \<^verbatim>\<open>CreateFileLogger(filePath)\<close>, before it is
  handed to \<^verbatim>\<open>CreateLogger\<close>.\<close>

definition CreateFileLogger_config :: "string \<Rightarrow> LoggerConfig" where
  "CreateFileLogger_config filePath =
     zero_LoggerConfig\<lparr>Output :=
       \<lparr>Console = \<lparr>Console_Enabled = False\<rparr>,
        File = zero_FileOutputConfig\<lparr>File_Enabled := True, File_Path := filePath\<rparr>,
        Remote = zero_RemoteOutputConfig\<rparr>\<rparr>"

section \<open>The zap engine (external library), as far as the logger uses it\<close>

text \<open>
  \<^verbatim>\<open>zap.Field\<close>: a key and a typed value. The constructors below are the ones the
  package calls (\<^verbatim>\<open>zap.String\<close>, \<^verbatim>\<open>zap.Int64\<close>, \<^verbatim>\<open>zap.Bool\<close>, \<^verbatim>\<open>zap.Duration\<close>,
  \<^verbatim>\<open>zap.Time\<close>, \<^verbatim>\<open>zap.Error\<close>, \<^verbatim>\<open>zap.Any\<close> on a \<^verbatim>\<open>map[string]string\<close>).
\<close>

datatype FieldValue =
    StringVal string
  | Int64Val int
  | BoolVal bool
  | DurationVal int
  | TimeVal int
  | ErrorVal string
  | MapVal "(string \<times> string) list"

record Field =
  Key :: string
  Val :: FieldValue

definition zap_String :: "string \<Rightarrow> string \<Rightarrow> Field" where
  "zap_String key v = \<lparr>Key = key, Val = StringVal v\<rparr>"

definition zap_Bool :: "string \<Rightarrow> bool \<Rightarrow> Field" where
  "zap_Bool key v = \<lparr>Key = key, Val = BoolVal v\<rparr>"

definition zap_Int64 :: "string \<Rightarrow> int \<Rightarrow> Field" where
  "zap_Int64 key v = \<lparr>Key = key, Val = Int64Val v\<rparr>"

definition zap_Duration :: "string \<Rightarrow> int \<Rightarrow> Field" where
  "zap_Duration key v = \<lparr>Key = key, Val = DurationVal v\<rparr>"

definition zap_Time :: "string \<Rightarrow> int \<Rightarrow> Field" where
  "zap_Time key v = \<lparr>Key = key, Val = TimeVal v\<rparr>"

definition zap_Error :: "string \<Rightarrow> Field" where
  "zap_Error e = \<lparr>Key = ''error'', Val = ErrorVal e\<rparr>"

definition zap_Any :: "string \<Rightarrow> (string \<times> string) list \<Rightarrow> Field" where
  "zap_Any key v = \<lparr>Key = key, Val = MapVal v\<rparr>"

text \<open>
  \<^verbatim>\<open>zapcore.Level\<close>: Debug = -1, Info = 0, Warn = 1, Error = 2, DPanic = 3, Panic = 4,
  Fatal = 5; a level \<open>lvl\<close> enables \<open>l\<close> when \<open>lvl \<le> l\<close>.
\<close>

type_synonym zapcore_Level = int

definition zapcore_DebugLevel :: zapcore_Level where "zapcore_DebugLevel = - 1"
definition zapcore_InfoLevel :: zapcore_Level where "zapcore_InfoLevel = 0"
definition zapcore_WarnLevel :: zapcore_Level where "zapcore_WarnLevel = 1"
definition zapcore_ErrorLevel :: zapcore_Level where "zapcore_ErrorLevel = 2"
definition zapcore_FatalLevel :: zapcore_Level where "zapcore_FatalLevel = 5"

lemmas zapcore_Level_defs = zapcore_DebugLevel_def zapcore_InfoLevel_def zapcore_WarnLevel_def
  zapcore_ErrorLevel_def zapcore_FatalLevel_def

definition zapcore_levels :: "zapcore_Level list" where
  "zapcore_levels = [5, 4, 3, 2, 1, 0, - 1]"

text \<open>\<^verbatim>\<open>CreateZapEncoder(format)\<close> (part of middleware.go's second file): the JSON
  encoder for \<^verbatim>\<open>"json"\<close>, the console encoder for anything else.\<close>

datatype Encoder = JSONEncoder | ConsoleEncoder

definition CreateZapEncoder :: "string \<Rightarrow> Encoder" where
  "CreateZapEncoder format = (if format = ''json'' then JSONEncoder else ConsoleEncoder)"

record InternalFileOutputConfig =
  Filename :: string
  MaxSizeMB :: int
  MaxBackups :: int
  MaxAgeDays :: int
  Compress :: bool

record InternalRemoteOutputConfig =
  IR_Type :: string
  IR_Endpoint :: string
  IR_Protocol :: string
  IR_Timeout :: int
  IR_TLS :: bool
  IR_BatchSize :: int

text \<open>Where a core writes: the standard output, or a rotating file (lumberjack).\<close>

datatype Sink = Stdout | RotatingFile InternalFileOutputConfig

text \<open>
  \<^verbatim>\<open>zapcore.Core\<close>: \<^verbatim>\<open>zapcore.NewCore(encoder, writer, level)\<close>, \<^verbatim>\<open>zapcore.NewTee\<close> of
  several cores, and the filter \<^verbatim>\<open>zap.IncreaseLevel\<close> wraps around a core.
\<close>

datatype zapcore_Core =
    IOCore Encoder Sink zapcore_Level
  | Tee "zapcore_Core list"
  | LevelFilterCore zapcore_Core zapcore_Level

fun core_Enabled :: "zapcore_Core \<Rightarrow> zapcore_Level \<Rightarrow> bool" where
  "core_Enabled (IOCore enc w lvl) l = (lvl \<le> l)"
| "core_Enabled (Tee cs) l = list_ex (\<lambda>c. core_Enabled c l) cs"
| "core_Enabled (LevelFilterCore c lvl) l = (lvl \<le> l)"

text \<open>\<^verbatim>\<open>Core.Check\<close>: the leaf cores that will write an entry of level \<open>l\<close>.\<close>

fun core_Check :: "zapcore_Core \<Rightarrow> zapcore_Level \<Rightarrow> (Encoder \<times> Sink) list" where
  "core_Check (IOCore enc w lvl) l = (if lvl \<le> l then [(enc, w)] else [])"
| "core_Check (Tee cs) l = concat (map (\<lambda>c. core_Check c l) cs)"
| "core_Check (LevelFilterCore c lvl) l = (if lvl \<le> l then core_Check c l else [])"

text \<open>
  \<^verbatim>\<open>*zap.Logger\<close>: a core and the fields added by \<^verbatim>\<open>With\<close>. Caller and stack-trace
  annotation, and the sampler of the production preset, are outside the model.
\<close>

record zap_Logger =
  core :: zapcore_Core
  with_fields :: "Field list"

record Entry =
  Entry_Level :: zapcore_Level
  Entry_Message :: string
  Entry_Fields :: "Field list"

type_synonym Write = "Encoder \<times> Sink \<times> Entry"

definition zap_With :: "zap_Logger \<Rightarrow> Field list \<Rightarrow> zap_Logger" where
  "zap_With z flds = z\<lparr>with_fields := with_fields z @ flds\<rparr>"

text \<open>One call of \<^verbatim>\<open>zap.Logger.Debug/Info/Warn/Error/Fatal\<close>: the records written.\<close>

definition zap_write :: "zap_Logger \<Rightarrow> zapcore_Level \<Rightarrow> string \<Rightarrow> Field list \<Rightarrow> Write list" where
  "zap_write z l msg flds =
     map (\<lambda>(enc, w). (enc, w, \<lparr>Entry_Level = l, Entry_Message = msg,
                                Entry_Fields = with_fields z @ flds\<rparr>))
         (core_Check (core z) l)"

text \<open>
  \<^verbatim>\<open>WithOptions(zap.IncreaseLevel(lvl))\<close>: zap refuses (and leaves the core as it is)
  when some level is enabled by \<open>lvl\<close> and not by the existing core; otherwise it wraps the
  core in a filter. The message zap prints on refusal is not modelled.
\<close>

definition zap_IncreaseLevel :: "zapcore_Level \<Rightarrow> zap_Logger \<Rightarrow> zap_Logger" where
  "zap_IncreaseLevel lvl z =
     (if list_ex (\<lambda>l. \<not> core_Enabled (core z) l \<and> lvl \<le> l) zapcore_levels then z
      else z\<lparr>core := LevelFilterCore (core z) lvl\<rparr>)"

section \<open>The output manager (output.go)\<close>

record OutputManager =
  cores :: "zapcore_Core list"

definition NewOutputManager :: OutputManager where
  "NewOutputManager = \<lparr>cores = []\<rparr>"

definition AddConsoleOutput :: "OutputManager \<Rightarrow> zapcore_Level \<Rightarrow> Encoder \<Rightarrow> OutputManager" where
  "AddConsoleOutput om level encoder = om\<lparr>cores := cores om @ [IOCore encoder Stdout level]\<rparr>"

text \<open>
  \<^verbatim>\<open>AddFileOutput\<close>: \<open>mkdir\<close> is the outcome of \<^verbatim>\<open>os.MkdirAll(filepath.Dir(name), 0755)\<close>
  for a file name, \<open>Some err\<close> when it fails. An error result is a string (its text).
\<close>

definition AddFileOutput ::
  "(string \<Rightarrow> string option) \<Rightarrow> OutputManager \<Rightarrow> InternalFileOutputConfig \<Rightarrow> zapcore_Level
     \<Rightarrow> Encoder \<Rightarrow> string option \<times> OutputManager" where
  "AddFileOutput mkdir om config level encoder =
     (case mkdir (Filename config) of
        Some err \<Rightarrow> (Some (''failed to create log directory: '' @ err), om)
      | None \<Rightarrow> (None, om\<lparr>cores := cores om @ [IOCore encoder (RotatingFile config) level]\<rparr>))"

text \<open>\<^verbatim>\<open>AddRemoteOutput\<close>: takes the lock and returns the error; nothing else.\<close>

definition AddRemoteOutput ::
  "OutputManager \<Rightarrow> InternalRemoteOutputConfig \<Rightarrow> zapcore_Level \<Rightarrow> Encoder
     \<Rightarrow> string option \<times> OutputManager" where
  "AddRemoteOutput om config level encoder = (Some ''remote output not implemented yet'', om)"

definition CreateTeeCore :: "OutputManager \<Rightarrow> zapcore_Core" where
  "CreateTeeCore om =
     (if length (cores om) = 0 then IOCore (CreateZapEncoder ''console'') Stdout zapcore_InfoLevel
      else if length (cores om) = 1 then cores om ! 0
      else Tee (cores om))"

definition levelToZapLevel :: "Level \<Rightarrow> zapcore_Level" where
  "levelToZapLevel level =
     (if level = DebugLevel then zapcore_DebugLevel
      else if level = InfoLevel then zapcore_InfoLevel
      else if level = WarnLevel then zapcore_WarnLevel
      else if level = ErrorLevel then zapcore_ErrorLevel
      else if level = FatalLevel then zapcore_FatalLevel
      else zapcore_InfoLevel)"

definition shouldAddConsoleOutput :: "LoggerConfig \<Rightarrow> bool" where
  "shouldAddConsoleOutput config =
     (if Format config = ''console'' \<or> Format config = [] then True
      else Console_Enabled (Console (Output config)))"

definition shouldAddFileOutput :: "LoggerConfig \<Rightarrow> bool" where
  "shouldAddFileOutput config =
     (File_Enabled (File (Output config)) \<and> File_Path (File (Output config)) \<noteq> [])"

definition shouldAddRemoteOutput :: "LoggerConfig \<Rightarrow> bool" where
  "shouldAddRemoteOutput config =
     (Remote_Enabled (Remote (Output config)) \<and> Remote_Endpoint (Remote (Output config)) \<noteq> [])"

definition createFileOutputConfig :: "LoggerConfig \<Rightarrow> InternalFileOutputConfig" where
  "createFileOutputConfig config =
     (let fileConfig = File (Output config) in
      \<lparr>Filename = File_Path fileConfig, MaxSizeMB = File_MaxSize fileConfig,
       MaxBackups = File_MaxBackups fileConfig, MaxAgeDays = File_MaxAge fileConfig,
       Compress = File_Compress fileConfig\<rparr>)"

definition createRemoteOutputConfig :: "LoggerConfig \<Rightarrow> InternalRemoteOutputConfig" where
  "createRemoteOutputConfig config =
     (let remoteConfig = Remote (Output config) in
      \<lparr>IR_Type = Remote_Protocol remoteConfig, IR_Endpoint = Remote_Endpoint remoteConfig,
       IR_Protocol = Remote_Protocol remoteConfig, IR_Timeout = Remote_Timeout remoteConfig,
       IR_TLS = Remote_TLS remoteConfig, IR_BatchSize = Remote_BatchSize remoteConfig\<rparr>)"

section \<open>Request contexts and the fields taken from them (logger.go, tracing.go)\<close>

text \<open>
  A \<^verbatim>\<open>context.Context\<close>, as far as the package reads it: the values stored under string
  keys (a value is a string or something else), and the OpenTelemetry span context, if
  any. Trace and span identifiers are represented by their hexadecimal rendering, which is
  what \<^verbatim>\<open>String()\<close> returns; an identifier is valid when it is not all zeros.
\<close>

datatype ctx_value = StrValue string | OtherValue

record SpanContext =
  TraceID :: string
  SpanID :: string
  IsSampled :: bool

record Context =
  ctx_Value :: "string \<Rightarrow> ctx_value option"
  ctx_Span :: "SpanContext option"

definition HasTraceID :: "SpanContext \<Rightarrow> bool" where
  "HasTraceID sc = list_ex (\<lambda>c. c \<noteq> CHR ''0'') (TraceID sc)"

definition HasSpanID :: "SpanContext \<Rightarrow> bool" where
  "HasSpanID sc = list_ex (\<lambda>c. c \<noteq> CHR ''0'') (SpanID sc)"

definition IsValid :: "SpanContext \<Rightarrow> bool" where
  "IsValid sc = (HasTraceID sc \<and> HasSpanID sc)"

text \<open>logger.go: \<^verbatim>\<open>getRequestIDFromContext\<close>, \<^verbatim>\<open>getUserIDFromContext\<close>,
  \<^verbatim>\<open>extractContextFields\<close>.\<close>

definition getRequestIDFromContext :: "Context \<Rightarrow> string" where
  "getRequestIDFromContext ctx =
     (case ctx_Value ctx ''request_id'' of Some (StrValue requestID) \<Rightarrow> requestID | _ \<Rightarrow> [])"

definition getUserIDFromContext :: "Context \<Rightarrow> string" where
  "getUserIDFromContext ctx =
     (case ctx_Value ctx ''user_id'' of Some (StrValue userID) \<Rightarrow> userID | _ \<Rightarrow> [])"

definition extractContextFields :: "Context \<Rightarrow> Field list" where
  "extractContextFields ctx =
     (let flds = [];
          flds = (if getRequestIDFromContext ctx \<noteq> []
                  then flds @ [zap_String ''request_id'' (getRequestIDFromContext ctx)] else flds);
          flds = (if getUserIDFromContext ctx \<noteq> []
                  then flds @ [zap_String ''user_id'' (getUserIDFromContext ctx)] else flds)
      in flds)"

text \<open>tracing.go: the extractor of the traced logger.\<close>

record TracingExtractor =
  enabled :: bool

definition NewTracingExtractor :: "bool \<Rightarrow> TracingExtractor" where
  "NewTracingExtractor en = \<lparr>enabled = en\<rparr>"

definition ExtractTraceFields :: "TracingExtractor \<Rightarrow> Context \<Rightarrow> Field list" where
  "ExtractTraceFields t ctx =
     (if \<not> enabled t then []
      else case ctx_Span ctx of
        None \<Rightarrow> []
      | Some spanContext \<Rightarrow>
          if IsValid spanContext then
            (if HasTraceID spanContext then [zap_String ''trace_id'' (TraceID spanContext)] else [])
            @ (if HasSpanID spanContext then [zap_String ''span_id'' (SpanID spanContext)] else [])
            @ (if IsSampled spanContext then [zap_Bool ''trace_sampled'' True] else [])
          else [])"

fun getContextValue :: "Context \<Rightarrow> string list \<Rightarrow> string" where
  "getContextValue ctx [] = []"
| "getContextValue ctx (key # keys) =
     (case ctx_Value ctx key of
        Some (StrValue str) \<Rightarrow> if str \<noteq> [] then str else getContextValue ctx keys
      | _ \<Rightarrow> getContextValue ctx keys)"

text \<open>One step of \<^verbatim>\<open>extractBusinessContextFields\<close>: look the concept up under its
  spellings and append a field when the value is not empty.\<close>

definition business_field :: "Context \<Rightarrow> string \<Rightarrow> string list \<Rightarrow> Field list" where
  "business_field ctx name keys =
     (if getContextValue ctx keys \<noteq> [] then [zap_String name (getContextValue ctx keys)] else [])"

definition extractBusinessContextFields :: "Context \<Rightarrow> Field list" where
  "extractBusinessContextFields ctx =
     business_field ctx ''request_id'' [''request_id'', ''requestID'', ''x-request-id'']
     @ business_field ctx ''user_id'' [''user_id'', ''userID'', ''user'']
     @ business_field ctx ''session_id'' [''session_id'', ''sessionID'', ''session'']
     @ business_field ctx ''tenant_id'' [''tenant_id'', ''tenantID'', ''tenant'']
     @ business_field ctx ''client_ip'' [''client_ip'', ''clientIP'', ''ip'', ''remote_addr'']
     @ business_field ctx ''user_agent'' [''user_agent'', ''userAgent'', ''User-Agent'']"

definition ExtractAllContextFields :: "TracingExtractor \<Rightarrow> Context \<Rightarrow> Field list" where
  "ExtractAllContextFields t ctx = ExtractTraceFields t ctx @ extractBusinessContextFields ctx"

text \<open>\<^verbatim>\<open>func (t *tracedLogger) mergeWithContextFields\<close>\<close>

definition mergeWithContextFields :: "TracingExtractor \<Rightarrow> Context \<Rightarrow> Field list \<Rightarrow> Field list" where
  "mergeWithContextFields ex ctx flds =
     (let contextFields = ExtractAllContextFields ex ctx in
      if length contextFields = 0 then flds else contextFields @ flds)"

section \<open>The four implementations of the Logger interface\<close>

text \<open>
  \<^verbatim>\<open>zapLogger\<close> (logger.go) and \<^verbatim>\<open>zapLoggerInternal\<close> (output.go) have the same five
  fields; \<^verbatim>\<open>tracedLogger\<close> (tracing.go) wraps a logger; \<^verbatim>\<open>fallbackLogger\<close> (global.go)
  is an empty struct. A logger is held by pointer and a method with a pointer receiver
  that assigns to a field is modelled by returning the updated logger.
\<close>

record zapLogger =
  zl_zap :: zap_Logger
  zl_sugar :: zap_Logger
  zl_level :: Level
  zl_service :: string
  zl_baseFields :: "Field list"

record zapLoggerInternal =
  zi_zap :: zap_Logger
  zi_sugar :: zap_Logger
  zi_level :: Level
  zi_service :: string
  zi_baseFields :: "Field list"

datatype Logger =
    ZapLogger zapLogger
  | ZapLoggerInternal zapLoggerInternal
  | TracedLogger Logger TracingExtractor
  | FallbackLogger

text \<open>The service fields both constructors compute: each one only when not empty.\<close>

definition serviceBaseFields :: "LoggerConfig \<Rightarrow> Field list" where
  "serviceBaseFields config =
     (if ServiceName config \<noteq> [] then [zap_String ''service'' (ServiceName config)] else [])
     @ (if Version config \<noteq> [] then [zap_String ''version'' (Version config)] else [])
     @ (if Environment config \<noteq> [] then [zap_String ''environment'' (Environment config)] else [])"

text \<open>
  What the constructors take from outside: the environment variables, the error of
  \<^verbatim>\<open>zap.Config.Build\<close> if it fails, and the error of creating a log file's directory.
\<close>

record Env =
  Getenv :: "string \<Rightarrow> string"
  Build_error :: "string option"
  MkdirAll_error :: "string \<Rightarrow> string option"

text \<open>\<^verbatim>\<open>buildZapConfig\<close> and \<^verbatim>\<open>Build\<close>: one core on the standard output, JSON for
  \<^verbatim>\<open>"json"\<close> and the development (console) encoding otherwise.\<close>

definition buildZapConfig :: "LoggerConfig \<Rightarrow> zap_Logger" where
  "buildZapConfig config =
     \<lparr>core = IOCore (if Format config = ''json'' then JSONEncoder else ConsoleEncoder) Stdout
               (levelToZapLevel (Level config)),
      with_fields = []\<rparr>"

definition NewLogger :: "Env \<Rightarrow> LoggerConfig \<Rightarrow> string + Logger" where
  "NewLogger env config =
     (case Build_error env of
        Some err \<Rightarrow> Inl (''failed to build zap logger: '' @ err)
      | None \<Rightarrow>
         (let zapInst = buildZapConfig config;
              baseFields = serviceBaseFields config
          in Inr (ZapLogger \<lparr>zl_zap = zap_With zapInst baseFields, zl_sugar = zapInst,
                             zl_level = Level config, zl_service = ServiceName config,
                             zl_baseFields = baseFields\<rparr>)))"

text \<open>
  \<^verbatim>\<open>CreateLoggerWithOutputs\<close>: the result and what was printed on the standard error
  stream. The three steps are written as in the source: console, file (an error ends the
  construction), remote (an error is printed and the construction goes on).
\<close>

definition CreateLoggerWithOutputs :: "Env \<Rightarrow> LoggerConfig \<Rightarrow> string list \<times> (string + Logger)" where
  "CreateLoggerWithOutputs env config =
     (let outputManager = NewOutputManager;
          level = levelToZapLevel (Level config);
          outputManager =
            (if shouldAddConsoleOutput config
             then AddConsoleOutput outputManager level (CreateZapEncoder (Format config))
             else outputManager);
          (fileErr, outputManager) =
            (if shouldAddFileOutput config
             then AddFileOutput (MkdirAll_error env) outputManager (createFileOutputConfig config)
                    level (CreateZapEncoder ''json'')
             else (None, outputManager))
      in case fileErr of
           Some err \<Rightarrow> ([], Inl (''failed to add file output: '' @ err))
         | None \<Rightarrow>
            (let (remoteErr, outputManager) =
                   (if shouldAddRemoteOutput config
                    then AddRemoteOutput outputManager (createRemoteOutputConfig config)
                           level (CreateZapEncoder ''json'')
                    else (None, outputManager));
                 stderr = (case remoteErr of
                             Some err \<Rightarrow> [''Warning: failed to add remote output: '' @ err @ [CHR 0x0A]]
                           | None \<Rightarrow> []);
                 zapInst = \<lparr>core = CreateTeeCore outputManager, with_fields = []\<rparr>;
                 baseFields = serviceBaseFields config;
                 zapInst = (if length baseFields > 0 then zap_With zapInst baseFields else zapInst)
             in (stderr, Inr (ZapLoggerInternal
                   \<lparr>zi_zap = zapInst, zi_sugar = zapInst, zi_level = Level config,
                    zi_service = ServiceName config, zi_baseFields = baseFields\<rparr>))))"

definition hasMultipleOutputs :: "LoggerConfig \<Rightarrow> bool" where
  "hasMultipleOutputs config =
     (let outputCount = (0::nat);
          outputCount = (if Console_Enabled (Console (Output config)) \<or> Format config = ''console''
                            \<or> Format config = []
                         then outputCount + 1 else outputCount);
          outputCount = (if File_Enabled (File (Output config)) \<and> File_Path (File (Output config)) \<noteq> []
                         then outputCount + 1 else outputCount);
          outputCount = (if Remote_Enabled (Remote (Output config))
                            \<and> Remote_Endpoint (Remote (Output config)) \<noteq> []
                         then outputCount + 1 else outputCount)
      in outputCount > 1)"

definition CreateTracedLogger :: "Env \<Rightarrow> LoggerConfig \<Rightarrow> string list \<times> (string + Logger)" where
  "CreateTracedLogger env config =
     (let (stderr, r) = (if hasMultipleOutputs config then CreateLoggerWithOutputs env config
                         else ([], NewLogger env config))
      in case r of
           Inl err \<Rightarrow> (stderr, Inl err)
         | Inr logger \<Rightarrow>
             (stderr, Inr (TracedLogger logger
                             (NewTracingExtractor (Tracing_Enabled (Tracing config))))))"

text \<open>\<^verbatim>\<open>func (f *LoggerFactory) CreateLogger(config LoggerConfig) (Logger, error)\<close>\<close>

definition CreateLogger :: "LoggerFactory \<Rightarrow> Env \<Rightarrow> LoggerConfig \<Rightarrow> string list \<times> (string + Logger)" where
  "CreateLogger f env config =
     (let mergedConfig = mergeWithDefaults f config in
      if Tracing_Enabled (Tracing mergedConfig) then CreateTracedLogger env mergedConfig
      else if hasMultipleOutputs mergedConfig then CreateLoggerWithOutputs env mergedConfig
      else ([], NewLogger env mergedConfig))"

text \<open>logger.go: \<^verbatim>\<open>NewLoggerFromEnv\<close>, which the global registry's lazy
  initialization calls.\<close>

definition NewLoggerFromEnv :: "Env \<Rightarrow> string + Logger" where
  "NewLoggerFromEnv env =
     (let level = Getenv env ''LOG_LEVEL'';
          level = (if level = [] then ''info'' else level);
          format = Getenv env ''LOG_FORMAT'';
          format = (if format = [] then ''console'' else format);
          serviceName = Getenv env ''SERVICE_NAME'';
          serviceName = (if serviceName = [] then ''unknown-service'' else serviceName)
      in NewLogger env
           (zero_LoggerConfig\<lparr>Level := ParseLevel level, Format := format,
              ServiceName := serviceName, Version := Getenv env ''SERVICE_VERSION'',
              Environment := Getenv env ''ENVIRONMENT''\<rparr>))"

section \<open>The methods of the Logger interface\<close>

text \<open>
  The five leveled methods differ in the level only (and \<^verbatim>\<open>Error\<close> and \<^verbatim>\<open>Fatal\<close> of
  \<^verbatim>\<open>zapLogger\<close> add the stack trace), so the model has one function with the method as
  an argument. A call's effect is the list of records written, with the core that wrote
  each, and whether the process was ended (zap's \<^verbatim>\<open>Fatal\<close> exits after writing).
\<close>

datatype Method = MDebug | MInfo | MWarn | MError | MFatal

definition Method_level :: "Method \<Rightarrow> zapcore_Level" where
  "Method_level m =
     (case m of MDebug \<Rightarrow> zapcore_DebugLevel | MInfo \<Rightarrow> zapcore_InfoLevel
      | MWarn \<Rightarrow> zapcore_WarnLevel | MError \<Rightarrow> zapcore_ErrorLevel | MFatal \<Rightarrow> zapcore_FatalLevel)"

record Effect =
  writes :: "Write list"
  exited :: bool

definition no_effect :: Effect where
  "no_effect = \<lparr>writes = [], exited = False\<rparr>"

definition zap_log :: "zap_Logger \<Rightarrow> Method \<Rightarrow> string \<Rightarrow> Field list \<Rightarrow> Effect" where
  "zap_log z m msg flds =
     \<lparr>writes = zap_write z (Method_level m) msg flds, exited = (m = MFatal)\<rparr>"

text \<open>\<^verbatim>\<open>func (l *zapLogger) enhanceFields\<close>: returns its argument.\<close>

definition enhanceFields :: "zapLogger \<Rightarrow> Field list \<Rightarrow> Field list" where
  "enhanceFields l flds = flds"

text \<open>\<^verbatim>\<open>zapLogger.Debug/Info/Warn/Error/Fatal\<close>; \<open>stk\<close> is the text \<^verbatim>\<open>getStackTrace()\<close>
  returns at the call.\<close>

definition zapLogger_log :: "string \<Rightarrow> zapLogger \<Rightarrow> Method \<Rightarrow> string \<Rightarrow> Field list \<Rightarrow> Effect" where
  "zapLogger_log stk l m msg flds =
     (if m = MError \<or> m = MFatal
      then zap_log (zl_zap l) m msg (enhanceFields l (flds @ [zap_String ''stack_trace'' stk]))
      else zap_log (zl_zap l) m msg (enhanceFields l flds))"

text \<open>\<^verbatim>\<open>zapLoggerInternal.Debug/Info/Warn/Error/Fatal\<close>\<close>

definition zapLoggerInternal_log :: "zapLoggerInternal \<Rightarrow> Method \<Rightarrow> string \<Rightarrow> Field list \<Rightarrow> Effect" where
  "zapLoggerInternal_log l m msg flds = zap_log (zi_zap l) m msg flds"

text \<open>\<^verbatim>\<open>Debug\<close>, \<^verbatim>\<open>Info\<close>, \<^verbatim>\<open>Warn\<close>, \<^verbatim>\<open>Error\<close>, \<^verbatim>\<open>Fatal\<close> of the interface.\<close>

fun Logger_log :: "string \<Rightarrow> Logger \<Rightarrow> Method \<Rightarrow> string \<Rightarrow> Field list \<Rightarrow> Effect" where
  "Logger_log stk (ZapLogger l) m msg flds = zapLogger_log stk l m msg flds"
| "Logger_log stk (ZapLoggerInternal l) m msg flds = zapLoggerInternal_log l m msg flds"
| "Logger_log stk (TracedLogger logger extractor) m msg flds = Logger_log stk logger m msg flds"
| "Logger_log stk FallbackLogger m msg flds = no_effect"

text \<open>
  \<^verbatim>\<open>DebugContext\<close>, \<^verbatim>\<open>InfoContext\<close>, \<^verbatim>\<open>WarnContext\<close>, \<^verbatim>\<open>ErrorContext\<close> (the interface has
  no \<^verbatim>\<open>FatalContext\<close>): \<^verbatim>\<open>zapLogger\<close> puts the fields of \<^verbatim>\<open>extractContextFields\<close> first,
  \<^verbatim>\<open>zapLoggerInternal\<close> calls the plain method with the fields it was given,
  \<^verbatim>\<open>tracedLogger\<close> merges and calls the wrapped logger's plain method.
\<close>

fun Logger_logContext ::
  "string \<Rightarrow> Logger \<Rightarrow> Method \<Rightarrow> Context \<Rightarrow> string \<Rightarrow> Field list \<Rightarrow> Effect" where
  "Logger_logContext stk (ZapLogger l) m ctx msg flds =
     (let contextFields = extractContextFields ctx;
          allFields = contextFields @ flds
      in Logger_log stk (ZapLogger l) m msg allFields)"
| "Logger_logContext stk (ZapLoggerInternal l) m ctx msg flds =
     Logger_log stk (ZapLoggerInternal l) m msg flds"
| "Logger_logContext stk (TracedLogger logger extractor) m ctx msg flds =
     (let allFields = mergeWithContextFields extractor ctx flds
      in Logger_log stk logger m msg allFields)"
| "Logger_logContext stk FallbackLogger m ctx msg flds = no_effect"

fun WithFields :: "Logger \<Rightarrow> Field list \<Rightarrow> Logger" where
  "WithFields (ZapLogger l) flds = ZapLogger (l\<lparr>zl_zap := zap_With (zl_zap l) flds\<rparr>)"
| "WithFields (ZapLoggerInternal l) flds = ZapLoggerInternal (l\<lparr>zi_zap := zap_With (zi_zap l) flds\<rparr>)"
| "WithFields (TracedLogger logger extractor) flds = TracedLogger (WithFields logger flds) extractor"
| "WithFields FallbackLogger flds = FallbackLogger"

fun WithService :: "Logger \<Rightarrow> string \<Rightarrow> Logger" where
  "WithService (ZapLogger l) service =
     ZapLogger (l\<lparr>zl_zap := zap_With (zl_zap l) [zap_String ''service'' service],
                  zl_service := service\<rparr>)"
| "WithService (ZapLoggerInternal l) service =
     ZapLoggerInternal (l\<lparr>zi_zap := zap_With (zi_zap l) [zap_String ''service'' service],
                          zi_service := service\<rparr>)"
| "WithService (TracedLogger logger extractor) service =
     TracedLogger (WithService logger service) extractor"
| "WithService FallbackLogger service = FallbackLogger"

fun WithContext :: "Logger \<Rightarrow> Context \<Rightarrow> Logger" where
  "WithContext (ZapLogger l) ctx = WithFields (ZapLogger l) (extractContextFields ctx)"
| "WithContext (ZapLoggerInternal l) ctx = ZapLoggerInternal l"
| "WithContext (TracedLogger logger extractor) ctx =
     TracedLogger (WithFields logger (ExtractAllContextFields extractor ctx)) extractor"
| "WithContext FallbackLogger ctx = FallbackLogger"

text \<open>
  \<^verbatim>\<open>SetLevel\<close>: \<^verbatim>\<open>zapLogger\<close> stores the level and applies \<^verbatim>\<open>zap.IncreaseLevel\<close> to its
  engine; \<^verbatim>\<open>zapLoggerInternal\<close> stores the level only; \<^verbatim>\<open>tracedLogger\<close> delegates;
  \<^verbatim>\<open>fallbackLogger\<close> does nothing.
\<close>

fun SetLevel :: "Logger \<Rightarrow> Level \<Rightarrow> Logger" where
  "SetLevel (ZapLogger l) level =
     (let l = l\<lparr>zl_level := level\<rparr>;
          l = l\<lparr>zl_zap := zap_IncreaseLevel (levelToZapLevel level) (zl_zap l)\<rparr>;
          l = l\<lparr>zl_sugar := zl_zap l\<rparr>
      in ZapLogger l)"
| "SetLevel (ZapLoggerInternal l) level = ZapLoggerInternal (l\<lparr>zi_level := level\<rparr>)"
| "SetLevel (TracedLogger logger extractor) level = TracedLogger (SetLevel logger level) extractor"
| "SetLevel FallbackLogger level = FallbackLogger"

text \<open>\<^verbatim>\<open>Sync\<close>: \<open>zsync\<close> is the outcome of \<^verbatim>\<open>zap.Logger.Sync\<close> on an engine
  (\<open>None\<close> is Go's \<^verbatim>\<open>nil\<close> error).\<close>

fun Logger_Sync :: "(zap_Logger \<Rightarrow> string option) \<Rightarrow> Logger \<Rightarrow> string option" where
  "Logger_Sync zsync (ZapLogger l) = zsync (zl_zap l)"
| "Logger_Sync zsync (ZapLoggerInternal l) = zsync (zi_zap l)"
| "Logger_Sync zsync (TracedLogger logger extractor) = Logger_Sync zsync logger"
| "Logger_Sync zsync FallbackLogger = None"

text \<open>
  Whether an instance emits a plain call of method \<open>m\<close>: some record is written. The
  emission threshold of an instance is the least level it emits.
\<close>

definition emits :: "Logger \<Rightarrow> Method \<Rightarrow> bool" where
  "emits logger m = (writes (Logger_log [] logger m [] []) \<noteq> [])"

section \<open>The global registry (global.go)\<close>

text \<open>
  The package variables \<^verbatim>\<open>globalLogger\<close> (\<open>None\<close> is \<^verbatim>\<open>nil\<close>) and \<^verbatim>\<open>globalInitOnce\<close>
  (whether the \<^verbatim>\<open>sync.Once\<close> has fired), and the loggers \<^verbatim>\<open>Sync\<close> was called on, in
  order. The lock is not modelled: the operations are taken one at a time.
\<close>

record Registry =
  globalLogger :: "Logger option"
  globalInitOnce :: bool
  synced :: "Logger list"

definition initial_Registry :: Registry where
  "initial_Registry = \<lparr>globalLogger = None, globalInitOnce = False, synced = []\<rparr>"

definition initDefaultGlobalLogger :: "Env \<Rightarrow> Registry \<Rightarrow> Registry" where
  "initDefaultGlobalLogger env s =
     (let logger = (case NewLoggerFromEnv env of
                      Inl err \<Rightarrow> FallbackLogger
                    | Inr logger \<Rightarrow> logger)
      in s\<lparr>globalLogger := Some logger\<rparr>)"

definition GetGlobalLogger :: "Env \<Rightarrow> Registry \<Rightarrow> Logger option \<times> Registry" where
  "GetGlobalLogger env s =
     (case globalLogger s of
        Some logger \<Rightarrow> (Some logger, s)
      | None \<Rightarrow>
         (let s = (if globalInitOnce s then s
                   else (initDefaultGlobalLogger env s)\<lparr>globalInitOnce := True\<rparr>)
          in (globalLogger s, s)))"

definition SetGlobalLogger :: "Logger option \<Rightarrow> Registry \<Rightarrow> Registry" where
  "SetGlobalLogger logger s =
     (let s = (case globalLogger s of
                 Some old \<Rightarrow> s\<lparr>synced := synced s @ [old]\<rparr>
               | None \<Rightarrow> s)
      in s\<lparr>globalLogger := logger\<rparr>)"

text \<open>\<^verbatim>\<open>ReplaceGlobalLogger\<close> returns the closure that restores the logger it found.\<close>

definition ReplaceGlobalLogger :: "Logger option \<Rightarrow> Registry \<Rightarrow> (Registry \<Rightarrow> Registry) \<times> Registry" where
  "ReplaceGlobalLogger logger s =
     (let oldLogger = globalLogger s;
          s = s\<lparr>globalLogger := logger\<rparr>
      in (\<lambda>s'. SetGlobalLogger oldLogger s', s))"

definition ResetGlobalLogger :: "Registry \<Rightarrow> Registry" where
  "ResetGlobalLogger s =
     (let s = (case globalLogger s of
                 Some old \<Rightarrow> s\<lparr>synced := synced s @ [old]\<rparr>
               | None \<Rightarrow> s)
      in s\<lparr>globalLogger := None, globalInitOnce := False\<rparr>)"

section \<open>Strings (Go's strings and regexp packages)\<close>

text \<open>
  Go strings are byte strings. Two functions of Go's library rest on the Unicode tables
  and are not part of this repository: \<^verbatim>\<open>strings.ToLower\<close>, and the match of a pattern
  with the flag \<^verbatim>\<open>(?i)\<close>, which folds case the Unicode way (\<^verbatim>\<open>k\<close> also matches the
  Kelvin sign). The functions that call them take them as a parameter:
  \<open>strings_ToLower lib s\<close> is \<^verbatim>\<open>strings.ToLower(s)\<close> and \<open>regexp_MatchString lib p s\<close>
  is \<^verbatim>\<open>regexp.MustCompile(p).MatchString(s)\<close>. What is proved of these functions holds
  for every such pair. \<^verbatim>\<open>strings.HasPrefix\<close>, \<^verbatim>\<open>strings.Contains\<close> and \<^verbatim>\<open>strings.Join\<close>
  work on the bytes and are written out.
\<close>

record GoLib =
  strings_ToLower :: "string \<Rightarrow> string"
  regexp_MatchString :: "string \<Rightarrow> string \<Rightarrow> bool"

fun HasPrefix :: "string \<Rightarrow> string \<Rightarrow> bool" where
  "HasPrefix s [] = True"
| "HasPrefix [] (p # ps) = False"
| "HasPrefix (c # s) (p # ps) = (c = p \<and> HasPrefix s ps)"

fun Contains :: "string \<Rightarrow> string \<Rightarrow> bool" where
  "Contains [] sub = (sub = [])"
| "Contains (c # s) sub = (HasPrefix (c # s) sub \<or> Contains s sub)"

fun Join :: "string list \<Rightarrow> string \<Rightarrow> string" where
  "Join [] sep = []"
| "Join [x] sep = x"
| "Join (x # y # ys) sep = x @ sep @ Join (y # ys) sep"

section \<open>Regular expressions (Go's regexp package), as far as the sanitizer uses them\<close>

text \<open>
  The patterns of types.go use word boundaries, character classes, counted and unbounded
  greedy repetition of a class, and capture groups that are not nested. A pattern is
  written as the sequence of its items, with a marker where a group opens and closes:
  \<^verbatim>\<open>\b(\d{3})\d{12}(\d{2})\b\<close> is
  \<open>[WordBoundary, GroupOpen, digits 3, GroupClose, digits 12, GroupOpen, digits 2, GroupClose, WordBoundary]\<close>.
  Go matches on UTF-8 text; every class here is ASCII and \<^verbatim>\<open>\b\<close> is an ASCII word
  boundary, so a byte outside ASCII is in no class and is not a word character.
\<close>

datatype citem = Rng char char | Chr char | Digit | Space

definition char_code :: "char \<Rightarrow> nat" where
  "char_code c = of_char c"

text \<open>\<^verbatim>\<open>\d\<close> is \<^verbatim>\<open>[0-9]\<close>; \<^verbatim>\<open>\s\<close> is tab, line feed, form feed, carriage return
  and space.\<close>

fun in_item :: "citem \<Rightarrow> char \<Rightarrow> bool" where
  "in_item (Rng lo hi) c = (char_code lo \<le> char_code c \<and> char_code c \<le> char_code hi)"
| "in_item (Chr x) c = (c = x)"
| "in_item Digit c = (48 \<le> char_code c \<and> char_code c \<le> 57)"
| "in_item Space c = (char_code c = 9 \<or> char_code c = 10 \<or> char_code c = 12 \<or> char_code c = 13 \<or> char_code c = 32)"

definition in_class :: "citem list \<Rightarrow> char \<Rightarrow> bool" where
  "in_class cls c = list_ex (\<lambda>i. in_item i c) cls"

text \<open>A word character is one of \<^verbatim>\<open>[0-9A-Za-z_]\<close>; the start and the end of the text
  count as not a word character.\<close>

definition is_word :: "char option \<Rightarrow> bool" where
  "is_word oc =
     (case oc of
        None \<Rightarrow> False
      | Some c \<Rightarrow> in_class [Digit, Rng CHR ''A'' CHR ''Z'', Chr CHR ''_'', Rng CHR ''a'' CHR ''z''] c)"

datatype inst = WordBoundary | Repeat "citem list" nat "nat option" | GroupOpen | GroupClose

fun first_some :: "('a \<Rightarrow> 'b option) \<Rightarrow> 'a list \<Rightarrow> 'b option" where
  "first_some f [] = None"
| "first_some f (x # xs) = (case f x of Some r \<Rightarrow> Some r | None \<Rightarrow> first_some f xs)"

definition head :: "string \<Rightarrow> char option" where
  "head s = (case s of [] \<Rightarrow> None | c # cs \<Rightarrow> Some c)"

text \<open>The numbers of repetitions a greedy \<^verbatim>\<open>x{lo,hi}\<close> tries at the front of \<open>s\<close>, most
  first.\<close>

definition counts :: "citem list \<Rightarrow> nat \<Rightarrow> nat option \<Rightarrow> string \<Rightarrow> nat list" where
  "counts cls lo hi s =
     (let avail = length (takeWhile (in_class cls) s);
          most = (case hi of None \<Rightarrow> avail | Some h \<Rightarrow> min h avail)
      in rev [lo ..< Suc most])"

text \<open>
  A match of a pattern that starts where the text \<open>s\<close> starts, the character before being
  \<open>prev\<close>: the first one a backtracking search finds (Go's leftmost-first rule), as the
  captured groups, the last character before the end of the match and the text after it.
  \<open>g\<close> is the text at the last \<open>GroupOpen\<close>.
\<close>

fun run :: "inst list \<Rightarrow> char option \<Rightarrow> string \<Rightarrow> string \<Rightarrow> string list
              \<Rightarrow> (string list \<times> char option \<times> string) option" where
  "run [] prev s g caps = Some (caps, prev, s)"
| "run (WordBoundary # prog) prev s g caps =
     (if is_word prev \<noteq> is_word (head s) then run prog prev s g caps else None)"
| "run (GroupOpen # prog) prev s g caps = run prog prev s s caps"
| "run (GroupClose # prog) prev s g caps = run prog prev s g (caps @ [take (length g - length s) g])"
| "run (Repeat cls lo hi # prog) prev s g caps =
     first_some (\<lambda>k. run prog (if k = 0 then prev else Some (s ! (k - 1))) (drop k s) g caps)
       (counts cls lo hi s)"

text \<open>\<^verbatim>\<open>MatchString\<close>: is there a match starting anywhere in the text.\<close>

fun matches_from :: "inst list \<Rightarrow> char option \<Rightarrow> string \<Rightarrow> bool" where
  "matches_from re prev [] = (run re prev [] [] [] \<noteq> None)"
| "matches_from re prev (c # cs) =
     (run re prev (c # cs) (c # cs) [] \<noteq> None \<or> matches_from re (Some c) cs)"

definition MatchString :: "inst list \<Rightarrow> string \<Rightarrow> bool" where
  "MatchString re s = matches_from re None s"

text \<open>A replacement template: \<^verbatim>\<open>"$1-****-****-$2"\<close> is
  \<open>[Ref 1, Lit ''-****-****-'', Ref 2]\<close>. A group that does not exist expands to nothing.\<close>

datatype tpart = Lit string | Ref nat

fun expand :: "tpart list \<Rightarrow> string list \<Rightarrow> string" where
  "expand [] caps = []"
| "expand (Lit t # ps) caps = t @ expand ps caps"
| "expand (Ref n # ps) caps =
     (if 0 < n \<and> n \<le> length caps then caps ! (n - 1) else []) @ expand ps caps"

text \<open>
  \<^verbatim>\<open>ReplaceAllString\<close>: from left to right, the leftmost match is replaced and the search
  goes on after it; a character where no match starts is copied. \<open>jm\<close> says that a match
  has just ended here: Go does not replace an empty match right after another match, and
  after an empty match it copies one character and goes on.
\<close>

function replaceAll :: "inst list \<Rightarrow> tpart list \<Rightarrow> char option \<Rightarrow> string \<Rightarrow> bool \<Rightarrow> string" where
  "replaceAll re repl prev s jm =
     (case run re prev s s [] of
        Some (caps, prev', rest) \<Rightarrow>
          if length rest < length s then expand repl caps @ replaceAll re repl prev' rest True
          else (if jm then [] else expand repl caps)
               @ (case s of [] \<Rightarrow> [] | c # cs \<Rightarrow> c # replaceAll re repl (Some c) cs False)
      | None \<Rightarrow> (case s of [] \<Rightarrow> [] | c # cs \<Rightarrow> c # replaceAll re repl (Some c) cs False))"
  by pat_completeness auto
termination
  by (relation "measure (\<lambda>(re, repl, prev, s, jm). length s)") auto

declare replaceAll.simps [simp del]

definition ReplaceAllString :: "inst list \<Rightarrow> string \<Rightarrow> tpart list \<Rightarrow> string" where
  "ReplaceAllString re src repl = replaceAll re repl None src False"

section \<open>The sanitizer (types.go)\<close>

definition digits :: "nat \<Rightarrow> inst" where
  "digits n = Repeat [Digit] n (Some n)"

definition one :: "citem list \<Rightarrow> inst" where
  "one cls = Repeat cls 1 (Some 1)"

text \<open>\<^verbatim>\<open>sensitiveFieldPatterns\<close>: the eight patterns, as the source writes them.\<close>

definition sensitiveFieldPatterns :: "string list" where
  "sensitiveFieldPatterns =
     [''(?i)password'', ''(?i)passwd'', ''(?i)secret'', ''(?i)token'', ''(?i)key'',
      ''(?i)auth'', ''(?i)credential'', ''(?i)session'']"

text \<open>\<^verbatim>\<open>customSensitiveFields\<close>, a \<^verbatim>\<open>map[string]bool\<close>: reading a key that is not in the
  map gives \<^verbatim>\<open>false\<close>.\<close>

type_synonym custom_fields = "string \<rightharpoonup> bool"

definition AddSensitiveField :: "GoLib \<Rightarrow> custom_fields \<Rightarrow> string \<Rightarrow> custom_fields" where
  "AddSensitiveField lib customSensitiveFields fieldName =
     customSensitiveFields(strings_ToLower lib fieldName \<mapsto> True)"

definition RemoveSensitiveField :: "GoLib \<Rightarrow> custom_fields \<Rightarrow> string \<Rightarrow> custom_fields" where
  "RemoveSensitiveField lib customSensitiveFields fieldName =
     customSensitiveFields(strings_ToLower lib fieldName := None)"

definition isSensitiveField :: "GoLib \<Rightarrow> custom_fields \<Rightarrow> string \<Rightarrow> bool" where
  "isSensitiveField lib customSensitiveFields key =
     (let lowerKey = strings_ToLower lib key in
      if customSensitiveFields lowerKey = Some True then True
      else list_ex (\<lambda>pattern. regexp_MatchString lib pattern lowerKey) sensitiveFieldPatterns)"

text \<open>\<^verbatim>\<open>SanitizeFields\<close>: the loop appends to \<^verbatim>\<open>result\<close>, one field at a time.\<close>

fun SanitizeFields_loop ::
  "GoLib \<Rightarrow> custom_fields \<Rightarrow> Field list \<Rightarrow> Field list \<Rightarrow> Field list" where
  "SanitizeFields_loop lib custom result [] = result"
| "SanitizeFields_loop lib custom result (field # rest) =
     (if isSensitiveField lib custom (Key field)
      then SanitizeFields_loop lib custom (result @ [zap_String (Key field) ''[REDACTED]'']) rest
      else SanitizeFields_loop lib custom (result @ [field]) rest)"

definition SanitizeFields :: "GoLib \<Rightarrow> custom_fields \<Rightarrow> Field list \<Rightarrow> Field list" where
  "SanitizeFields lib custom flds = SanitizeFields_loop lib custom [] flds"

text \<open>The six patterns of \<^verbatim>\<open>sanitizeString\<close>, in the order it applies them.\<close>

definition separator :: inst where
  "separator = Repeat [Chr CHR ''-'', Space] 0 (Some 1)"

definition local_part :: "citem list" where
  "local_part = [Rng CHR ''A'' CHR ''Z'', Rng CHR ''a'' CHR ''z'', Rng CHR ''0'' CHR ''9'',
                 Chr CHR ''.'', Chr CHR ''_'', Chr CHR ''%'', Chr CHR ''+'', Chr CHR ''-'']"

definition domain_part :: "citem list" where
  "domain_part = [Rng CHR ''A'' CHR ''Z'', Rng CHR ''a'' CHR ''z'', Rng CHR ''0'' CHR ''9'',
                  Chr CHR ''.'', Chr CHR ''-'']"

definition tld_part :: "citem list" where
  "tld_part = [Rng CHR ''A'' CHR ''Z'', Chr CHR ''|'', Rng CHR ''a'' CHR ''z'']"

definition token_part :: "citem list" where
  "token_part = [Rng CHR ''A'' CHR ''Z'', Rng CHR ''a'' CHR ''z'', Rng CHR ''0'' CHR ''9'',
                 Chr CHR ''_'', Chr CHR ''-'']"

text \<open>\<^verbatim>\<open>\b(\d{4})[-\s]?\d{4}[-\s]?\d{4}[-\s]?(\d{4})\b\<close>\<close>

definition re_card :: "inst list" where
  "re_card = [WordBoundary, GroupOpen, digits 4, GroupClose, separator, digits 4, separator,
              digits 4, separator, GroupOpen, digits 4, GroupClose, WordBoundary]"

text \<open>\<^verbatim>\<open>\b(\d{3})\d{12}(\d{2})\b\<close>\<close>

definition re_id17 :: "inst list" where
  "re_id17 = [WordBoundary, GroupOpen, digits 3, GroupClose, digits 12,
              GroupOpen, digits 2, GroupClose, WordBoundary]"

text \<open>\<^verbatim>\<open>\b(\d{3})\d{11}(\d[\dXx])\b\<close>\<close>

definition re_id16 :: "inst list" where
  "re_id16 = [WordBoundary, GroupOpen, digits 3, GroupClose, digits 11,
              GroupOpen, digits 1, one [Digit, Chr CHR ''X'', Chr CHR ''x''], GroupClose,
              WordBoundary]"

text \<open>\<^verbatim>\<open>\b([A-Za-z0-9._%+-]{1,2})[A-Za-z0-9._%+-]*(@[A-Za-z0-9.-]+\.[A-Z|a-z]{2,})\b\<close>\<close>

definition re_email :: "inst list" where
  "re_email = [WordBoundary, GroupOpen, Repeat local_part 1 (Some 2), GroupClose,
               Repeat local_part 0 None,
               GroupOpen, one [Chr CHR ''@''], Repeat domain_part 1 None, one [Chr CHR ''.''],
               Repeat tld_part 2 None, GroupClose, WordBoundary]"

text \<open>\<^verbatim>\<open>\b(1[3-9]\d)(\d{4})(\d{4})\b\<close>\<close>

definition re_phone :: "inst list" where
  "re_phone = [WordBoundary, GroupOpen, one [Chr CHR ''1''], one [Rng CHR ''3'' CHR ''9''], digits 1,
               GroupClose, GroupOpen, digits 4, GroupClose, GroupOpen, digits 4, GroupClose,
               WordBoundary]"

text \<open>\<^verbatim>\<open>\b([A-Za-z0-9_-]{8})[A-Za-z0-9_-]{24,}\b\<close>\<close>

definition re_token :: "inst list" where
  "re_token = [WordBoundary, GroupOpen, Repeat token_part 8 (Some 8), GroupClose,
               Repeat token_part 24 None, WordBoundary]"

definition sanitize_patterns :: "inst list list" where
  "sanitize_patterns = [re_card, re_id17, re_id16, re_email, re_phone, re_token]"

text \<open>\<^verbatim>\<open>func sanitizeString(input string) string\<close>: six replacements, each on the
  result of the one before.\<close>

definition sanitizeString :: "string \<Rightarrow> string" where
  "sanitizeString input =
     (let result = input;
          result = ReplaceAllString re_card result [Ref 1, Lit ''-****-****-'', Ref 2];
          result = ReplaceAllString re_id17 result [Ref 1, Lit ''***********'', Ref 2];
          result = ReplaceAllString re_id16 result [Ref 1, Lit ''***********'', Ref 2];
          result = ReplaceAllString re_email result [Ref 1, Lit ''****'', Ref 2];
          result = ReplaceAllString re_phone result [Ref 1, Lit ''****'', Ref 3];
          result = ReplaceAllString re_token result [Ref 1, Lit ''****'']
      in result)"

section \<open>The RPC interceptor (middleware.go)\<close>

record MiddlewareConfig =
  LogRequests :: bool
  LogResponses :: bool
  LogHeaders :: bool
  SensitiveFields :: "string list"
  MaxBodySize :: int
  SlowThreshold :: int

record ConnectLoggingInterceptor =
  i_logger :: Logger
  i_config :: MiddlewareConfig

definition NewConnectLoggingInterceptor :: "Logger \<Rightarrow> MiddlewareConfig \<Rightarrow> ConnectLoggingInterceptor" where
  "NewConnectLoggingInterceptor logger config =
     (let config = (if MaxBodySize config \<le> 0 then config\<lparr>MaxBodySize := 4096\<rparr> else config);
          config = (if SlowThreshold config \<le> 0 then config\<lparr>SlowThreshold := 1000\<rparr> else config)
      in \<lparr>i_logger = logger, i_config = config\<rparr>)"

definition DefaultMiddlewareConfig :: MiddlewareConfig where
  "DefaultMiddlewareConfig =
     \<lparr>LogRequests = True, LogResponses = True, LogHeaders = False,
      SensitiveFields = [''password'', ''token'', ''key'', ''secret'', ''auth''],
      MaxBodySize = 4096, SlowThreshold = 1000\<rparr>"

text \<open>
  What the interceptor reads of a request, of a response and of an error: the procedure,
  the headers (each name with its values), the message's type name as \<^verbatim>\<open>%T\<close> prints it
  (\<open>None\<close> when the message is \<^verbatim>\<open>nil\<close>); an error's text and, for a \<^verbatim>\<open>*connect.Error\<close>,
  its code and message.
\<close>

record AnyRequest =
  req_Procedure :: string
  req_Header :: "(string \<times> string list) list"
  req_Any :: "string option"

record AnyResponse =
  resp_Header :: "(string \<times> string list) list"
  resp_Any :: "string option"

record RpcError =
  err_Error :: string
  err_connect :: "(string \<times> string) option"

text \<open>\<^verbatim>\<open>func (i *ConnectLoggingInterceptor) isSensitiveField(fieldName string) bool\<close>\<close>

definition commonSensitive :: "string list" where
  "commonSensitive =
     [''authorization'', ''cookie'', ''x-api-key'', ''x-auth-token'',
      ''authentication'', ''x-access-token'', ''bearer'', ''password'']"

definition interceptor_isSensitiveField ::
  "GoLib \<Rightarrow> ConnectLoggingInterceptor \<Rightarrow> string \<Rightarrow> bool" where
  "interceptor_isSensitiveField lib i fieldName =
     (let lowerField = strings_ToLower lib fieldName in
      if list_ex (\<lambda>sensitive. strings_ToLower lib sensitive = lowerField)
           (SensitiveFields (i_config i))
      then True
      else list_ex (\<lambda>sensitive. lowerField = sensitive \<or> Contains lowerField sensitive)
             commonSensitive)"

definition redact_headers ::
  "GoLib \<Rightarrow> ConnectLoggingInterceptor \<Rightarrow> (string \<times> string list) list
     \<Rightarrow> (string \<times> string) list" where
  "redact_headers lib i hdrs =
     map (\<lambda>(key, vals). (key, if \<not> interceptor_isSensitiveField lib i key then Join vals '',''
                                else ''[REDACTED]'')) hdrs"

definition extractRequestFields ::
  "GoLib \<Rightarrow> ConnectLoggingInterceptor \<Rightarrow> AnyRequest \<Rightarrow> Field list" where
  "extractRequestFields lib i req =
     (let flds = [];
          flds = (if LogHeaders (i_config i)
                  then (let headers = redact_headers lib i (req_Header req)
                        in if length headers > 0 then flds @ [zap_Any ''request_headers'' headers]
                           else flds)
                  else flds);
          flds = (case req_Any req of
                    Some t \<Rightarrow> flds @ [zap_String ''request_type'' t]
                  | None \<Rightarrow> flds)
      in flds)"

definition extractResponseFields ::
  "GoLib \<Rightarrow> ConnectLoggingInterceptor \<Rightarrow> AnyResponse \<Rightarrow> Field list" where
  "extractResponseFields lib i resp =
     (let flds = [];
          flds = (if LogHeaders (i_config i)
                  then (let headers = redact_headers lib i (resp_Header resp)
                        in if length headers > 0 then flds @ [zap_Any ''response_headers'' headers]
                           else flds)
                  else flds);
          flds = (case resp_Any resp of
                    Some t \<Rightarrow> flds @ [zap_String ''response_type'' t]
                  | None \<Rightarrow> flds)
      in flds)"

text \<open>\<^verbatim>\<open>time.Duration\<close> counts nanoseconds; \<^verbatim>\<open>Milliseconds()\<close> is Go's integer
  division by 1e6, which truncates towards zero.\<close>

definition Duration_Milliseconds :: "int \<Rightarrow> int" where
  "Duration_Milliseconds d = sgn d * (\<bar>d\<bar> div 1000000)"

text \<open>A call of one of the logger's \<^verbatim>\<open>*Context\<close> methods: method, context, message,
  fields.\<close>

datatype LogCall = LogCall Method Context string "Field list"

text \<open>
  \<^verbatim>\<open>WrapUnary\<close>, applied to a call: \<open>startTime\<close> is \<^verbatim>\<open>time.Now()\<close>, \<open>(resp, err)\<close> is
  what \<^verbatim>\<open>next(ctx, req)\<close> returned and \<open>duration\<close> is \<^verbatim>\<open>time.Since(startTime)\<close> after it.
  The result is the calls made on the interceptor's logger, in order, and the pair handed
  back to the caller.
\<close>

definition WrapUnary ::
  "GoLib \<Rightarrow> ConnectLoggingInterceptor \<Rightarrow> Context \<Rightarrow> AnyRequest \<Rightarrow> int
     \<Rightarrow> AnyResponse option \<times> RpcError option \<Rightarrow> int
     \<Rightarrow> LogCall list \<times> (AnyResponse option \<times> RpcError option)" where
  "WrapUnary lib i ctx req startTime result duration =
     (let procedure = req_Procedure req;
          baseFields = [zap_String ''method'' ''unary'', zap_String ''procedure'' procedure,
                        zap_Time ''start_time'' startTime];
          baseFields = (if LogRequests (i_config i) then baseFields @ extractRequestFields lib i req
                        else baseFields);
          started = LogCall MInfo ctx ''RPC request started'' baseFields;
          (resp, err) = result;
          responseFields = [zap_String ''procedure'' procedure, zap_Duration ''duration'' duration,
                            zap_Int64 ''duration_ms'' (Duration_Milliseconds duration)];
          responseFields = (case resp of
                              Some r \<Rightarrow> if LogResponses (i_config i)
                                        then responseFields @ extractResponseFields lib i r
                                        else responseFields
                            | None \<Rightarrow> responseFields)
      in case err of
           Some e \<Rightarrow>
             (let errorFields = responseFields @ [zap_Error (err_Error e), zap_String ''status'' ''error''];
                  errorFields = (case err_connect e of
                                   Some (code, message) \<Rightarrow>
                                     errorFields @ [zap_String ''error_code'' code,
                                                    zap_String ''error_message'' message]
                                 | None \<Rightarrow> errorFields)
              in ([started, LogCall MError ctx ''RPC request failed'' errorFields], result))
         | None \<Rightarrow>
             (let successFields = responseFields @ [zap_String ''status'' ''success''];
                  logLevel = ''info'';
                  logMsg = ''RPC request completed'';
                  (logLevel, logMsg, successFields) =
                    (if Duration_Milliseconds duration > SlowThreshold (i_config i)
                     then (''warn'', ''RPC request completed (slow)'',
                           successFields @ [zap_Bool ''slow_request'' True])
                     else (logLevel, logMsg, successFields))
              in if logLevel = ''warn''
                 then ([started, LogCall MWarn ctx logMsg successFields], result)
                 else ([started, LogCall MInfo ctx logMsg successFields], result)))"

text \<open>The fields of the completion record of a call that returned no error, before the
  slow marker is added: \<^verbatim>\<open>successFields\<close> as first assigned.\<close>

definition completion_fields ::
  "GoLib \<Rightarrow> ConnectLoggingInterceptor \<Rightarrow> AnyRequest \<Rightarrow> AnyResponse option \<Rightarrow> int \<Rightarrow> Field list" where
  "completion_fields lib i req resp duration =
     [zap_String ''procedure'' (req_Procedure req), zap_Duration ''duration'' duration,
      zap_Int64 ''duration_ms'' (Duration_Milliseconds duration)]
     @ (case resp of
          Some r \<Rightarrow> if LogResponses (i_config i) then extractResponseFields lib i r else []
        | None \<Rightarrow> [])
     @ [zap_String ''status'' ''success'']"

section \<open>Example inputs\<close>

definition example_Env :: Env where
  "example_Env = \<lparr>Getenv = (\<lambda>_. []), Build_error = None, MkdirAll_error = (\<lambda>_. None)\<rparr>"

text \<open>JSON format, console and file outputs, no tracing: the factory takes the
  multi-output path.\<close>

definition multi_output_config :: LoggerConfig where
  "multi_output_config =
     zero_LoggerConfig\<lparr>Format := ''json'', ServiceName := ''svc'',
       Output := \<lparr>Console = \<lparr>Console_Enabled = True\<rparr>,
                  File = zero_FileOutputConfig\<lparr>File_Enabled := True, File_Path := ''logs/app.log''\<rparr>,
                  Remote = zero_RemoteOutputConfig\<rparr>\<rparr>"

definition req123_ctx :: Context where
  "req123_ctx = \<lparr>ctx_Value = [''request_id'' \<mapsto> StrValue ''req-123''], ctx_Span = None\<rparr>"

text \<open>A configuration with its remote section switched off, everything else kept.\<close>

definition without_remote :: "LoggerConfig \<Rightarrow> LoggerConfig" where
  "without_remote config =
     config\<lparr>Output := (Output config)\<lparr>Remote := (Remote (Output config))\<lparr>Remote_Enabled := False\<rparr>\<rparr>\<rparr>"

definition remote_output_config :: LoggerConfig where
  "remote_output_config =
     multi_output_config\<lparr>Output := (Output multi_output_config)
       \<lparr>Remote := zero_RemoteOutputConfig\<lparr>Remote_Enabled := True,
                                            Remote_Endpoint := ''logs.example:9000''\<rparr>\<rparr>\<rparr>"

definition example_request :: AnyRequest where
  "example_request = \<lparr>req_Procedure = ''/user.v1.UserService/GetUser'', req_Header = [],
                       req_Any = Some ''*userv1.GetUserRequest''\<rparr>"

text \<open>
  The two library functions on ASCII text, for the examples below: lowering maps
  \<^verbatim>\<open>A\<close> to \<^verbatim>\<open>Z\<close> to \<^verbatim>\<open>a\<close> to \<^verbatim>\<open>z\<close>, and \<^verbatim>\<open>(?i)word\<close> matches a text in which the
  word occurs with each letter in either case. On ASCII text this is what Go computes; on
  other text Go lowers and folds more, so these stand for Go's functions at the examples'
  inputs only.
\<close>

definition lower_char :: "char \<Rightarrow> char" where
  "lower_char c =
     (let n = char_code c in if 65 \<le> n \<and> n \<le> 90 then char_of (n + 32) else c)"

definition upper_char :: "char \<Rightarrow> char" where
  "upper_char c = (let n = char_code c in if 97 \<le> n \<and> n \<le> 122 then char_of (n - 32) else c)"

definition ascii_ignore_case :: "string \<Rightarrow> inst list" where
  "ascii_ignore_case w = map (\<lambda>c. one [Chr c, Chr (upper_char c)]) w"

definition ascii_lib :: GoLib where
  "ascii_lib =
     \<lparr>strings_ToLower = map lower_char,
      regexp_MatchString = (\<lambda>pattern s. HasPrefix pattern ''(?i)''
                              \<and> MatchString (ascii_ignore_case (drop 4 pattern)) s)\<rparr>"

text \<open>Inputs of the sanitizer.\<close>

definition example_custom :: custom_fields where
  "example_custom = AddSensitiveField ascii_lib Map.empty ''SSN''"

definition example_fields :: "Field list" where
  "example_fields =
     [zap_String ''Password'' ''hunter2'', zap_Int64 ''port'' 8080, zap_String ''ssn'' ''078-05-1120'']"

definition two_cards :: string where
  "two_cards = ''1111 2222 3333 4444 5555 6666 7777''"

definition card_and_mail :: string where
  "card_and_mail = ''4111111111111111 alice@example.com''"

section \<open>Properties of levels\<close>

text \<open>
  Claim C6. For each of the five defined levels, parsing the level's name gives the level
  back; a string that is not one of the five names parses to \<open>InfoLevel\<close>. \<open>ParseLevel\<close>
  is a total function: it has a value on every string and no error result.
\<close>

theorem ParseLevel_String_roundtrip:
  "(l \<in> {DebugLevel, InfoLevel, WarnLevel, ErrorLevel, FatalLevel}
      \<longrightarrow> ParseLevel (Level_String l) = l)
   \<and> (s \<notin> {''debug'', ''info'', ''warn'', ''error'', ''fatal''}
      \<longrightarrow> ParseLevel s = InfoLevel)"
  by (auto simp: ParseLevel_def Level_String_def Level_defs)

theorem ParseLevel_String_roundtrip_witness:
  "ParseLevel (Level_String WarnLevel) = WarnLevel
   \<and> ParseLevel ''verbose'' = InfoLevel
   \<and> ParseLevel ''WARN'' = InfoLevel"
  using ParseLevel_String_roundtrip [of WarnLevel "''verbose''"]
        ParseLevel_String_roundtrip [of WarnLevel "''WARN''"]
  by simp

section \<open>Properties of the factory's merge\<close>

lemma mergeWithDefaults_Console:
  "Console_Enabled (Console (Output (mergeWithDefaults NewLoggerFactory config)))"
  by (simp add: mergeWithDefaults_def NewLoggerFactory_def DefaultLoggerConfig_def Let_def)

text \<open>
  Claim C10. Whatever configuration is given to the factory, the merged configuration has
  console output enabled: the console section of the input is copied only when it is
  enabled, and the default has it enabled. This holds in particular for the configuration
  \<open>CreateFileLogger\<close> builds, which asks for the console to be off.
\<close>

theorem mergeWithDefaults_console_enabled:
  "Console_Enabled (Console (Output (mergeWithDefaults NewLoggerFactory config)))
   \<and> \<not> Console_Enabled (Console (Output (CreateFileLogger_config filePath)))
   \<and> Console_Enabled (Console (Output
        (mergeWithDefaults NewLoggerFactory (CreateFileLogger_config filePath))))"
  using mergeWithDefaults_Console
  by (simp add: CreateFileLogger_config_def)

section \<open>Properties of the global registry\<close>

text \<open>
  Claim C5. When a logger \<open>old\<close> is the global logger, \<open>ReplaceGlobalLogger\<close> installs the
  new logger and returns a restore function; after the restore function has run,
  \<open>GetGlobalLogger\<close> returns \<open>old\<close> again. The restore function holds \<open>old\<close> itself, so
  this is so in whatever state of the registry it is run.
\<close>

theorem ReplaceGlobalLogger_restore:
  assumes "globalLogger s = Some old"
  shows "case ReplaceGlobalLogger newLogger s of
           (restore, s1) \<Rightarrow>
             globalLogger s1 = newLogger
             \<and> fst (GetGlobalLogger env (restore s1)) = Some old
             \<and> (\<forall>s'. fst (GetGlobalLogger env (restore s')) = Some old)"
  using assms
  by (simp add: ReplaceGlobalLogger_def SetGlobalLogger_def GetGlobalLogger_def Let_def
           split: option.split)

theorem ReplaceGlobalLogger_restore_witness:
  "fst (GetGlobalLogger example_Env
      (fst (ReplaceGlobalLogger (Some FallbackLogger)
              \<lparr>globalLogger = Some (TracedLogger FallbackLogger \<lparr>enabled = True\<rparr>),
               globalInitOnce = False, synced = []\<rparr>)
         (snd (ReplaceGlobalLogger (Some FallbackLogger)
              \<lparr>globalLogger = Some (TracedLogger FallbackLogger \<lparr>enabled = True\<rparr>),
               globalInitOnce = False, synced = []\<rparr>))))
   = Some (TracedLogger FallbackLogger \<lparr>enabled = True\<rparr>)"
  using ReplaceGlobalLogger_restore
    [of "\<lparr>globalLogger = Some (TracedLogger FallbackLogger \<lparr>enabled = True\<rparr>),
          globalInitOnce = False, synced = []\<rparr>"
        "TracedLogger FallbackLogger \<lparr>enabled = True\<rparr>" "Some FallbackLogger" example_Env]
  by (simp add: split_beta)

text \<open>
  Claim C9. When no global logger was set (the slot is empty and the once-guard has not
  fired) and \<open>NewLoggerFromEnv\<close> fails, \<open>GetGlobalLogger\<close> returns the fallback logger, not
  \<^verbatim>\<open>nil\<close>, and leaves it installed, so that the next call returns it too. On the fallback
  logger every leveled method and every context method has no effect (nothing is written
  and the process is not ended, also for \<open>MFatal\<close>), \<open>Sync\<close> returns no error, and
  \<open>WithFields\<close>, \<open>WithService\<close> and \<open>WithContext\<close> return the fallback logger itself.
\<close>

theorem GetGlobalLogger_fallback:
  assumes "globalLogger s = None" and "\<not> globalInitOnce s" and "NewLoggerFromEnv env = Inl err"
  shows "fst (GetGlobalLogger env s) = Some FallbackLogger
       \<and> globalLogger (snd (GetGlobalLogger env s)) = Some FallbackLogger
       \<and> fst (GetGlobalLogger env (snd (GetGlobalLogger env s))) = Some FallbackLogger
       \<and> Logger_log stk FallbackLogger m msg flds = no_effect
       \<and> Logger_logContext stk FallbackLogger m ctx msg flds = no_effect
       \<and> writes no_effect = [] \<and> \<not> exited no_effect
       \<and> Logger_Sync zsync FallbackLogger = None
       \<and> WithFields FallbackLogger flds = FallbackLogger
       \<and> WithService FallbackLogger service = FallbackLogger
       \<and> WithContext FallbackLogger ctx = FallbackLogger"
  using assms
  by (simp add: GetGlobalLogger_def initDefaultGlobalLogger_def no_effect_def Let_def)

theorem GetGlobalLogger_fallback_witness:
  "NewLoggerFromEnv (example_Env\<lparr>Build_error := Some ''no encoder''\<rparr>)
     = Inl ''failed to build zap logger: no encoder''
   \<and> fst (GetGlobalLogger (example_Env\<lparr>Build_error := Some ''no encoder''\<rparr>) initial_Registry)
     = Some FallbackLogger"
  using GetGlobalLogger_fallback [of initial_Registry "example_Env\<lparr>Build_error := Some ''no encoder''\<rparr>"
      "''failed to build zap logger: no encoder''"]
  by (simp add: initial_Registry_def NewLoggerFromEnv_def NewLogger_def example_Env_def Let_def)

section \<open>Properties of the output manager\<close>

lemma without_remote_simps:
  "shouldAddConsoleOutput (without_remote config) = shouldAddConsoleOutput config"
  "shouldAddFileOutput (without_remote config) = shouldAddFileOutput config"
  "\<not> shouldAddRemoteOutput (without_remote config)"
  "createFileOutputConfig (without_remote config) = createFileOutputConfig config"
  "serviceBaseFields (without_remote config) = serviceBaseFields config"
  "Level (without_remote config) = Level config"
  "Format (without_remote config) = Format config"
  "ServiceName (without_remote config) = ServiceName config"
  "Filename (createFileOutputConfig config) = File_Path (File (Output config))"
  by (simp_all add: without_remote_def shouldAddConsoleOutput_def shouldAddFileOutput_def
        shouldAddRemoteOutput_def createFileOutputConfig_def serviceBaseFields_def Let_def)

text \<open>
  Claim C8. \<open>AddRemoteOutput\<close> returns the error "remote output not implemented yet" and
  the manager it was given, with no core added. When a configuration asks for a remote
  output (and the file output, if asked for, can be added), \<open>CreateLoggerWithOutputs\<close>
  prints one warning and returns a logger, not an error. The logger is the
  \<open>zapLoggerInternal\<close> whose engine holds the remaining sinks: the console core if the
  console is asked for, then the file core if a file is asked for (one core alone, a tee
  of both, or the default console core at Info when there is neither), with the service
  fields. It is the logger returned, without a warning, for the same configuration with
  the remote output switched off; and a call at or above the configured level writes one
  record to each remaining sink, in that order, and nowhere else.
\<close>

theorem remote_output_not_fatal:
  "AddRemoteOutput om remoteConfig level encoder = (Some ''remote output not implemented yet'', om)
   \<and> (shouldAddRemoteOutput config
        \<and> (shouldAddFileOutput config \<longrightarrow> MkdirAll_error env (File_Path (File (Output config))) = None)
      \<longrightarrow> (let lvl = levelToZapLevel (Level config);
                sinks = (if shouldAddConsoleOutput config
                         then [IOCore (CreateZapEncoder (Format config)) Stdout lvl] else [])
                        @ (if shouldAddFileOutput config
                           then [IOCore JSONEncoder (RotatingFile (createFileOutputConfig config)) lvl]
                           else []);
                engine = \<lparr>core = (if sinks = [] then IOCore ConsoleEncoder Stdout zapcore_InfoLevel
                                   else if length sinks = 1 then hd sinks else Tee sinks),
                           with_fields = serviceBaseFields config\<rparr>;
                logger = ZapLoggerInternal
                           \<lparr>zi_zap = engine, zi_sugar = engine, zi_level = Level config,
                            zi_service = ServiceName config,
                            zi_baseFields = serviceBaseFields config\<rparr>
            in CreateLoggerWithOutputs env config =
                 ([''Warning: failed to add remote output: remote output not implemented yet''
                   @ [CHR 0x0A]], Inr logger)
               \<and> CreateLoggerWithOutputs env (without_remote config) = ([], Inr logger)
               \<and> (sinks \<noteq> [] \<longrightarrow>
                    writes (Logger_log stk logger m msg flds) =
                      (if lvl \<le> Method_level m
                       then map (\<lambda>(enc, w). (enc, w, \<lparr>Entry_Level = Method_level m,
                                                       Entry_Message = msg,
                                                       Entry_Fields = serviceBaseFields config @ flds\<rparr>))
                              ((if shouldAddConsoleOutput config
                                then [(CreateZapEncoder (Format config), Stdout)] else [])
                               @ (if shouldAddFileOutput config
                                  then [(JSONEncoder, RotatingFile (createFileOutputConfig config))]
                                  else []))
                       else []))))"
proof (intro conjI impI)
  show "AddRemoteOutput om remoteConfig level encoder = (Some ''remote output not implemented yet'', om)"
    by (simp add: AddRemoteOutput_def)
next
  assume a: "shouldAddRemoteOutput config
        \<and> (shouldAddFileOutput config \<longrightarrow> MkdirAll_error env (File_Path (File (Output config))) = None)"
  then show "let lvl = levelToZapLevel (Level config);
                sinks = (if shouldAddConsoleOutput config
                         then [IOCore (CreateZapEncoder (Format config)) Stdout lvl] else [])
                        @ (if shouldAddFileOutput config
                           then [IOCore JSONEncoder (RotatingFile (createFileOutputConfig config)) lvl]
                           else []);
                engine = \<lparr>core = (if sinks = [] then IOCore ConsoleEncoder Stdout zapcore_InfoLevel
                                   else if length sinks = 1 then hd sinks else Tee sinks),
                           with_fields = serviceBaseFields config\<rparr>;
                logger = ZapLoggerInternal
                           \<lparr>zi_zap = engine, zi_sugar = engine, zi_level = Level config,
                            zi_service = ServiceName config,
                            zi_baseFields = serviceBaseFields config\<rparr>
            in CreateLoggerWithOutputs env config =
                 ([''Warning: failed to add remote output: remote output not implemented yet''
                   @ [CHR 0x0A]], Inr logger)
               \<and> CreateLoggerWithOutputs env (without_remote config) = ([], Inr logger)
               \<and> (sinks \<noteq> [] \<longrightarrow>
                    writes (Logger_log stk logger m msg flds) =
                      (if lvl \<le> Method_level m
                       then map (\<lambda>(enc, w). (enc, w, \<lparr>Entry_Level = Method_level m,
                                                       Entry_Message = msg,
                                                       Entry_Fields = serviceBaseFields config @ flds\<rparr>))
                              ((if shouldAddConsoleOutput config
                                then [(CreateZapEncoder (Format config), Stdout)] else [])
                               @ (if shouldAddFileOutput config
                                  then [(JSONEncoder, RotatingFile (createFileOutputConfig config))]
                                  else []))
                       else []))"
    by (cases "shouldAddFileOutput config"; cases "shouldAddConsoleOutput config";
        simp add: CreateLoggerWithOutputs_def without_remote_simps AddRemoteOutput_def
          AddFileOutput_def AddConsoleOutput_def NewOutputManager_def CreateTeeCore_def
          zap_With_def CreateZapEncoder_def zapLoggerInternal_log_def zap_log_def zap_write_def
          Let_def)+
qed

theorem remote_output_not_fatal_witness:
  "shouldAddRemoteOutput remote_output_config
   \<and> shouldAddFileOutput remote_output_config
   \<and> CreateLoggerWithOutputs example_Env remote_output_config =
       ([''Warning: failed to add remote output: remote output not implemented yet'' @ [CHR 0x0A]],
        Inr (ZapLoggerInternal
          \<lparr>zi_zap = \<lparr>core = Tee [IOCore JSONEncoder Stdout 0,
                                   IOCore JSONEncoder
                                     (RotatingFile \<lparr>Filename = ''logs/app.log'', MaxSizeMB = 0,
                                        MaxBackups = 0, MaxAgeDays = 0, Compress = False\<rparr>) 0],
                      with_fields = [zap_String ''service'' ''svc'']\<rparr>,
           zi_sugar = \<lparr>core = Tee [IOCore JSONEncoder Stdout 0,
                                   IOCore JSONEncoder
                                     (RotatingFile \<lparr>Filename = ''logs/app.log'', MaxSizeMB = 0,
                                        MaxBackups = 0, MaxAgeDays = 0, Compress = False\<rparr>) 0],
                      with_fields = [zap_String ''service'' ''svc'']\<rparr>,
           zi_level = 0, zi_service = ''svc'', zi_baseFields = [zap_String ''service'' ''svc'']\<rparr>))
   \<and> (case snd (CreateLoggerWithOutputs example_Env remote_output_config) of
         Inl err \<Rightarrow> False
       | Inr logger \<Rightarrow>
           writes (Logger_log [] logger MInfo ''started'' []) =
             [(JSONEncoder, Stdout,
               \<lparr>Entry_Level = 0, Entry_Message = ''started'',
                Entry_Fields = [zap_String ''service'' ''svc'']\<rparr>),
              (JSONEncoder,
               RotatingFile \<lparr>Filename = ''logs/app.log'', MaxSizeMB = 0, MaxBackups = 0,
                              MaxAgeDays = 0, Compress = False\<rparr>,
               \<lparr>Entry_Level = 0, Entry_Message = ''started'',
                Entry_Fields = [zap_String ''service'' ''svc'']\<rparr>)])"
proof -
  have r: "shouldAddRemoteOutput remote_output_config"
    by (simp add: shouldAddRemoteOutput_def remote_output_config_def multi_output_config_def
          zero_RemoteOutputConfig_def)
  have f: "shouldAddFileOutput remote_output_config"
    by (simp add: shouldAddFileOutput_def remote_output_config_def multi_output_config_def
          zero_FileOutputConfig_def)
  have c: "shouldAddConsoleOutput remote_output_config"
    by (simp add: shouldAddConsoleOutput_def remote_output_config_def multi_output_config_def)
  have m: "MkdirAll_error example_Env (File_Path (File (Output remote_output_config))) = None"
    by (simp add: example_Env_def)
  have v: "Level remote_output_config = 0" "Format remote_output_config = ''json''"
    "ServiceName remote_output_config = ''svc''"
    "serviceBaseFields remote_output_config = [zap_String ''service'' ''svc'']"
    "createFileOutputConfig remote_output_config =
       \<lparr>Filename = ''logs/app.log'', MaxSizeMB = 0, MaxBackups = 0, MaxAgeDays = 0, Compress = False\<rparr>"
    by (simp_all add: remote_output_config_def multi_output_config_def zero_LoggerConfig_def
          serviceBaseFields_def createFileOutputConfig_def zero_FileOutputConfig_def Let_def)
  from remote_output_not_fatal [of NewOutputManager "createRemoteOutputConfig remote_output_config"
        0 JSONEncoder remote_output_config example_Env] r f m
  show ?thesis
    by (simp add: c v Let_def CreateZapEncoder_def levelToZapLevel_def Level_defs zapcore_Level_defs
          zapLoggerInternal_log_def zap_log_def zap_write_def Method_level_def)
qed

section \<open>Properties of the context methods and of SetLevel\<close>

lemma logContext_zapLogger:
  "Logger_logContext stk (ZapLogger l) m ctx msg flds =
     Logger_log stk (ZapLogger l) m msg (extractContextFields ctx @ flds)"
  by (simp add: Let_def)

lemma logContext_tracedLogger:
  "Logger_logContext stk (TracedLogger logger ex) m ctx msg flds =
     Logger_log stk logger m msg (ExtractAllContextFields ex ctx @ flds)"
  by (simp add: Let_def mergeWithContextFields_def)

lemma logContext_zapLoggerInternal:
  "Logger_logContext stk (ZapLoggerInternal l) m ctx msg flds =
     Logger_log stk (ZapLoggerInternal l) m msg flds"
  by simp

lemma mergeWithDefaults_multi_output_config:
  "mergeWithDefaults NewLoggerFactory multi_output_config =
   \<lparr>Level = 0, Format = ''json'', ServiceName = ''svc'', Version = ''1.0.0'',
      Environment = ''development'',
      Output = \<lparr>Console = \<lparr>Console_Enabled = True\<rparr>,
                 File = zero_FileOutputConfig\<lparr>File_Enabled := True, File_Path := ''logs/app.log''\<rparr>,
                 Remote = zero_RemoteOutputConfig\<rparr>,
      Tracing = \<lparr>Tracing_Enabled = False\<rparr>\<rparr>"
  by (simp add: mergeWithDefaults_def NewLoggerFactory_def DefaultLoggerConfig_def
        multi_output_config_def zero_LoggerConfig_def zero_OutputConfig_def InfoLevel_def
        zero_FileOutputConfig_def zero_RemoteOutputConfig_def)

lemma mergeWithDefaults_single_output_config:
  "mergeWithDefaults NewLoggerFactory (zero_LoggerConfig\<lparr>Format := ''json'', ServiceName := ''svc''\<rparr>) =
   \<lparr>Level = 0, Format = ''json'', ServiceName = ''svc'', Version = ''1.0.0'',
      Environment = ''development'',
      Output = \<lparr>Console = \<lparr>Console_Enabled = True\<rparr>, File = zero_FileOutputConfig,
                 Remote = zero_RemoteOutputConfig\<rparr>,
      Tracing = \<lparr>Tracing_Enabled = False\<rparr>\<rparr>"
  by (simp add: mergeWithDefaults_def NewLoggerFactory_def DefaultLoggerConfig_def
        zero_LoggerConfig_def zero_OutputConfig_def InfoLevel_def
        zero_FileOutputConfig_def zero_RemoteOutputConfig_def)

text \<open>The single-output logger the factory builds for JSON format with the default
  console output is a \<open>zapLogger\<close>: its record has the request id, after the service
  fields and before the explicit field.\<close>

lemma InfoContext_single_output_has_request_id:
  "\<exists>logger. CreateLogger NewLoggerFactory example_Env
               (zero_LoggerConfig\<lparr>Format := ''json'', ServiceName := ''svc''\<rparr>) = ([], Inr logger)
     \<and> writes (Logger_logContext stk logger MInfo req123_ctx ''started'' [zap_Int64 ''port'' 8080]) =
         [(JSONEncoder, Stdout,
           \<lparr>Entry_Level = zapcore_InfoLevel, Entry_Message = ''started'',
            Entry_Fields = [zap_String ''service'' ''svc'', zap_String ''version'' ''1.0.0'',
                            zap_String ''environment'' ''development'',
                            zap_String ''request_id'' ''req-123'', zap_Int64 ''port'' 8080]\<rparr>)]"
  by (simp add: CreateLogger_def mergeWithDefaults_single_output_config hasMultipleOutputs_def
        NewLogger_def buildZapConfig_def example_Env_def zero_FileOutputConfig_def
        zero_RemoteOutputConfig_def serviceBaseFields_def zap_With_def zapLogger_log_def
        enhanceFields_def zap_log_def zap_write_def extractContextFields_def
        getRequestIDFromContext_def getUserIDFromContext_def req123_ctx_def
        Method_level_def levelToZapLevel_def Level_defs zapcore_Level_defs Let_def)

text \<open>
  Claim C3, at an input where the code does not do what the claim says. The factory,
  given JSON format with console and file outputs and tracing off, builds a
  \<open>zapLoggerInternal\<close>. Its \<open>InfoContext\<close>, called with a context that carries the request
  id "req-123", writes one record to each output, and the record's fields are the service
  fields and the explicit field only: there is no \<open>request_id\<close> field. (For \<open>zapLogger\<close>
  and \<open>tracedLogger\<close> the context fields do come first: the three lemmas above.)
\<close>

theorem InfoContext_multi_output_drops_request_id:
  "\<exists>logger. CreateLogger NewLoggerFactory example_Env multi_output_config = ([], Inr logger)
     \<and> writes (Logger_logContext stk logger MInfo req123_ctx ''started'' [zap_Int64 ''port'' 8080]) =
         (let entry = \<lparr>Entry_Level = zapcore_InfoLevel, Entry_Message = ''started'',
                        Entry_Fields = [zap_String ''service'' ''svc'', zap_String ''version'' ''1.0.0'',
                                        zap_String ''environment'' ''development'',
                                        zap_Int64 ''port'' 8080]\<rparr>
          in [(JSONEncoder, Stdout, entry),
              (JSONEncoder, RotatingFile \<lparr>Filename = ''logs/app.log'', MaxSizeMB = 0, MaxBackups = 0,
                                          MaxAgeDays = 0, Compress = False\<rparr>, entry)])"
  by (simp add: CreateLogger_def mergeWithDefaults_multi_output_config hasMultipleOutputs_def
        CreateLoggerWithOutputs_def
        shouldAddConsoleOutput_def shouldAddFileOutput_def shouldAddRemoteOutput_def
        zero_FileOutputConfig_def zero_RemoteOutputConfig_def AddConsoleOutput_def AddFileOutput_def
        NewOutputManager_def example_Env_def createFileOutputConfig_def CreateTeeCore_def
        serviceBaseFields_def zap_With_def zapLoggerInternal_log_def zap_log_def zap_write_def
        Method_level_def levelToZapLevel_def Level_defs zapcore_Level_defs CreateZapEncoder_def Let_def)

lemma core_Check_IncreaseLevel:
  "core_Check (core (zap_IncreaseLevel lvl z)) l \<noteq> [] \<Longrightarrow> core_Check (core z) l \<noteq> []"
  by (auto simp: zap_IncreaseLevel_def split: if_splits)

text \<open>On every logger, a method that \<open>SetLevel\<close> leaves enabled was enabled before: no
  call of \<open>SetLevel\<close> lowers the emission threshold.\<close>

lemma emits_SetLevel_only_if:
  "emits (SetLevel logger level) m \<Longrightarrow> emits logger m"
proof (induction logger)
  case (ZapLogger l)
  then show ?case
    using core_Check_IncreaseLevel [of "levelToZapLevel level" "zl_zap l" "Method_level m"]
    by (auto simp: emits_def zapLogger_log_def zap_log_def zap_write_def enhanceFields_def Let_def
          zap_IncreaseLevel_def split: if_splits)
next
  case (ZapLoggerInternal l)
  then show ?case
    by (simp add: emits_def zapLoggerInternal_log_def zap_log_def zap_write_def)
next
  case (TracedLogger logger ex)
  then show ?case by (simp add: emits_def)
next
  case FallbackLogger
  then show ?case by (simp add: emits_def)
qed

text \<open>On a \<open>zapLoggerInternal\<close>, \<open>SetLevel\<close> changes no emission at all.\<close>

lemma emits_SetLevel_zapLoggerInternal:
  "emits (SetLevel (ZapLoggerInternal l) level) m = emits (ZapLoggerInternal l) m"
  by (simp add: emits_def zapLoggerInternal_log_def)

text \<open>Raising works on a \<open>zapLogger\<close>: from Warn to Error.\<close>

lemma SetLevel_raises:
  "\<exists>logger. NewLogger example_Env (zero_LoggerConfig\<lparr>Level := WarnLevel, Format := ''json''\<rparr>) = Inr logger
     \<and> emits logger MWarn
     \<and> \<not> emits (SetLevel logger ErrorLevel) MWarn
     \<and> emits (SetLevel logger ErrorLevel) MError"
  by (simp add: NewLogger_def example_Env_def buildZapConfig_def zero_LoggerConfig_def
        serviceBaseFields_def zap_With_def emits_def zapLogger_log_def zap_log_def zap_write_def
        enhanceFields_def zap_IncreaseLevel_def zapcore_levels_def
        Method_level_def levelToZapLevel_def Level_defs zapcore_Level_defs Let_def)

text \<open>
  Claim C4, at an input where the code does not do what the claim says. A logger built
  by \<open>NewLogger\<close> with level Warn suppresses Debug and Info and emits Warn. After
  \<open>SetLevel DebugLevel\<close> it still suppresses Debug and Info: the threshold is Warn, not
  Debug.
\<close>

theorem SetLevel_cannot_lower:
  "\<exists>logger. NewLogger example_Env (zero_LoggerConfig\<lparr>Level := WarnLevel, Format := ''json''\<rparr>) = Inr logger
     \<and> \<not> emits logger MDebug \<and> \<not> emits logger MInfo \<and> emits logger MWarn
     \<and> \<not> emits (SetLevel logger DebugLevel) MDebug
     \<and> \<not> emits (SetLevel logger DebugLevel) MInfo
     \<and> emits (SetLevel logger DebugLevel) MWarn"
  by (simp add: NewLogger_def example_Env_def buildZapConfig_def zero_LoggerConfig_def
        serviceBaseFields_def zap_With_def emits_def zapLogger_log_def zap_log_def zap_write_def
        enhanceFields_def zap_IncreaseLevel_def zapcore_levels_def
        Method_level_def levelToZapLevel_def Level_defs zapcore_Level_defs Let_def)

section \<open>Properties of the RPC interceptor\<close>

lemma completion_fields_no_slow:
  "''slow_request'' \<notin> Key ` set (completion_fields lib i req resp duration)"
  by (auto simp: completion_fields_def extractResponseFields_def zap_String_def zap_Duration_def
        zap_Int64_def zap_Any_def Let_def split: option.splits)

text \<open>
  Claim C7. Take an interceptor made by \<open>NewConnectLoggingInterceptor\<close>; its threshold is
  the configured \<open>SlowThreshold\<close>, or 1000 when that is not set (zero, or not positive).
  For a unary call that returns no error the interceptor makes two calls on its logger:
  the start record, and the completion record. When the duration in milliseconds exceeds
  the threshold the completion record is a \<open>WarnContext\<close> call whose fields end with
  \<open>slow_request = true\<close>; otherwise it is an \<open>InfoContext\<close> call, and no field of it
  has the key \<open>slow_request\<close>.
\<close>

theorem WrapUnary_slow_request:
  assumes "i = NewConnectLoggingInterceptor logger config"
    and "threshold = (if SlowThreshold config \<le> 0 then 1000 else SlowThreshold config)"
  shows "SlowThreshold (i_config i) = threshold
    \<and> (\<exists>started.
         WrapUnary lib i ctx req startTime (resp, None) duration =
           ([started,
             if Duration_Milliseconds duration > threshold
             then LogCall MWarn ctx ''RPC request completed (slow)''
                    (completion_fields lib i req resp duration @ [zap_Bool ''slow_request'' True])
             else LogCall MInfo ctx ''RPC request completed''
                    (completion_fields lib i req resp duration)],
            (resp, None)))
    \<and> ''slow_request'' \<notin> Key ` set (completion_fields lib i req resp duration)"
proof (intro conjI)
  show t: "SlowThreshold (i_config i) = threshold"
    using assms by (simp add: NewConnectLoggingInterceptor_def Let_def)
  show "\<exists>started.
         WrapUnary lib i ctx req startTime (resp, None) duration =
           ([started,
             if Duration_Milliseconds duration > threshold
             then LogCall MWarn ctx ''RPC request completed (slow)''
                    (completion_fields lib i req resp duration @ [zap_Bool ''slow_request'' True])
             else LogCall MInfo ctx ''RPC request completed''
                    (completion_fields lib i req resp duration)],
            (resp, None))"
    unfolding t [symmetric]
    by (cases resp) (simp_all add: WrapUnary_def completion_fields_def Let_def)
  show "''slow_request'' \<notin> Key ` set (completion_fields lib i req resp duration)"
    by (rule completion_fields_no_slow)
qed

theorem WrapUnary_slow_request_witness:
  "tl (fst (WrapUnary ascii_lib (NewConnectLoggingInterceptor FallbackLogger (DefaultMiddlewareConfig\<lparr>SlowThreshold := 0\<rparr>))
          req123_ctx example_request 0 (None, None) 1000999999)) =
     [LogCall MInfo req123_ctx ''RPC request completed''
        [zap_String ''procedure'' ''/user.v1.UserService/GetUser'', zap_Duration ''duration'' 1000999999,
         zap_Int64 ''duration_ms'' 1000, zap_String ''status'' ''success'']]
   \<and> tl (fst (WrapUnary ascii_lib (NewConnectLoggingInterceptor FallbackLogger (DefaultMiddlewareConfig\<lparr>SlowThreshold := 0\<rparr>))
          req123_ctx example_request 0 (None, None) 1001000000)) =
     [LogCall MWarn req123_ctx ''RPC request completed (slow)''
        [zap_String ''procedure'' ''/user.v1.UserService/GetUser'', zap_Duration ''duration'' 1001000000,
         zap_Int64 ''duration_ms'' 1001, zap_String ''status'' ''success'',
         zap_Bool ''slow_request'' True]]"
  using WrapUnary_slow_request [OF refl refl, of FallbackLogger "DefaultMiddlewareConfig\<lparr>SlowThreshold := 0\<rparr>"
          ascii_lib req123_ctx example_request 0 None 1000999999]
        WrapUnary_slow_request [OF refl refl, of FallbackLogger "DefaultMiddlewareConfig\<lparr>SlowThreshold := 0\<rparr>"
          ascii_lib req123_ctx example_request 0 None 1001000000]
  by (auto simp: DefaultMiddlewareConfig_def completion_fields_def example_request_def
        Duration_Milliseconds_def)

section \<open>Properties of the sanitizer\<close>

lemma SanitizeFields_loop_map:
  "SanitizeFields_loop lib custom result flds =
     result @ map (\<lambda>field. if isSensitiveField lib custom (Key field)
                             then zap_String (Key field) ''[REDACTED]'' else field) flds"
  by (induction flds arbitrary: result) simp_all

text \<open>
  Claim C1. Whatever Go's \<^verbatim>\<open>strings.ToLower\<close> and pattern matching compute,
  \<open>SanitizeFields\<close> returns as many fields as it was given, in the same order and with
  the same keys: at every position, a field with a sensitive key has become the string
  field with that key and the value "[REDACTED]", and a field whose key is not sensitive
  is the field that was given. A key is sensitive exactly when its lower-case form is in
  the custom set or one of the eight patterns matches its lower-case form; so keys with
  the same lower-case form are treated alike, and a name added with \<open>AddSensitiveField\<close>
  makes sensitive every key with the lower-case form of that name.
\<close>

theorem SanitizeFields_redacts:
  "length (SanitizeFields lib custom flds) = length flds
   \<and> (\<forall>i < length flds.
        Key (SanitizeFields lib custom flds ! i) = Key (flds ! i)
        \<and> (isSensitiveField lib custom (Key (flds ! i))
             \<longrightarrow> SanitizeFields lib custom flds ! i = zap_String (Key (flds ! i)) ''[REDACTED]'')
        \<and> (\<not> isSensitiveField lib custom (Key (flds ! i))
             \<longrightarrow> SanitizeFields lib custom flds ! i = flds ! i))
   \<and> (isSensitiveField lib custom key \<longleftrightarrow>
        custom (strings_ToLower lib key) = Some True
        \<or> (\<exists>pattern \<in> set sensitiveFieldPatterns.
              regexp_MatchString lib pattern (strings_ToLower lib key)))
   \<and> (strings_ToLower lib key = strings_ToLower lib key'
        \<longrightarrow> isSensitiveField lib custom key = isSensitiveField lib custom key')
   \<and> (strings_ToLower lib key = strings_ToLower lib name
        \<longrightarrow> isSensitiveField lib (AddSensitiveField lib custom name) key)"
  by (auto simp: SanitizeFields_def SanitizeFields_loop_map isSensitiveField_def
        AddSensitiveField_def zap_String_def list_ex_iff Let_def)

lemma example_fields_sensitive:
  "isSensitiveField ascii_lib example_custom ''Password''"
  "\<not> isSensitiveField ascii_lib example_custom ''port''"
  "isSensitiveField ascii_lib example_custom ''ssn''"
  by code_simp+

theorem SanitizeFields_redacts_witness:
  "length (SanitizeFields ascii_lib example_custom example_fields) = 3
   \<and> SanitizeFields ascii_lib example_custom example_fields ! 0
        = zap_String ''Password'' ''[REDACTED]''
   \<and> SanitizeFields ascii_lib example_custom example_fields ! 1 = zap_Int64 ''port'' 8080
   \<and> SanitizeFields ascii_lib example_custom example_fields ! 2
        = zap_String ''ssn'' ''[REDACTED]''"
proof -
  let ?S = "SanitizeFields ascii_lib example_custom example_fields"
  have k: "Key (example_fields ! 0) = ''Password''" "Key (example_fields ! 1) = ''port''"
    "Key (example_fields ! 2) = ''ssn''" "length example_fields = 3"
    by (simp_all add: example_fields_def zap_String_def zap_Int64_def)
  have p: "example_fields ! 1 = zap_Int64 ''port'' 8080"
    by (simp add: example_fields_def)
  from SanitizeFields_redacts [of ascii_lib example_custom example_fields]
  have len: "length ?S = length example_fields"
    and each: "\<And>i. i < length example_fields \<Longrightarrow>
        (isSensitiveField ascii_lib example_custom (Key (example_fields ! i))
           \<longrightarrow> ?S ! i = zap_String (Key (example_fields ! i)) ''[REDACTED]'')
        \<and> (\<not> isSensitiveField ascii_lib example_custom (Key (example_fields ! i))
           \<longrightarrow> ?S ! i = example_fields ! i)"
    by blast+
  have "?S ! 0 = zap_String ''Password'' ''[REDACTED]''"
    using each [of 0] k example_fields_sensitive by simp
  moreover have "?S ! 1 = zap_Int64 ''port'' 8080"
  proof -
    have "(1::nat) < length example_fields" unfolding k by simp
    from each [OF this] have "?S ! 1 = example_fields ! 1"
      unfolding k using example_fields_sensitive(2) by blast
    then show ?thesis unfolding p .
  qed
  moreover have "?S ! 2 = zap_String ''ssn'' ''[REDACTED]''"
    using each [of 2] k example_fields_sensitive by simp
  ultimately show ?thesis using len k by simp
qed

section \<open>Properties of the string scrubber\<close>

lemma replaceAll_no_match:
  "\<not> matches_from re prev s \<Longrightarrow> replaceAll re repl prev s jm = s"
proof (induction s arbitrary: prev jm)
  case Nil
  then show ?case by (subst replaceAll.simps) (simp split: option.splits)
next
  case (Cons c cs)
  then show ?case by (subst replaceAll.simps) (simp split: option.splits)
qed

lemma ReplaceAllString_no_match:
  "\<not> MatchString re s \<Longrightarrow> ReplaceAllString re s repl = s"
  by (simp add: MatchString_def ReplaceAllString_def replaceAll_no_match)

lemma sanitizeString_no_match:
  assumes "\<forall>re \<in> set sanitize_patterns. \<not> MatchString re y"
  shows "sanitizeString y = y"
  using assms by (simp add: sanitizeString_def sanitize_patterns_def ReplaceAllString_no_match)

text \<open>Where only the card pattern and the e-mail pattern find something, the result of
  \<open>sanitizeString\<close> is the result of these two replacements.\<close>

lemma sanitizeString_card_email:
  assumes "ReplaceAllString re_card x [Ref 1, Lit ''-****-****-'', Ref 2] = y"
    and "\<not> MatchString re_id17 y" and "\<not> MatchString re_id16 y"
    and "ReplaceAllString re_email y [Ref 1, Lit ''****'', Ref 2] = z"
    and "\<not> MatchString re_phone z" and "\<not> MatchString re_token z"
  shows "sanitizeString x = z"
  using assms by (simp add: sanitizeString_def ReplaceAllString_no_match)

text \<open>The first application to \<open>two_cards\<close> masks the first sixteen digits.\<close>

lemma pass1_card:
  "ReplaceAllString re_card two_cards [Ref 1, Lit ''-****-****-'', Ref 2]
     = ''1111-****-****-4444 5555 6666 7777''"
  by code_simp

lemma pass1_id17: "\<not> MatchString re_id17 ''1111-****-****-4444 5555 6666 7777''"
  by code_simp

lemma pass1_id16: "\<not> MatchString re_id16 ''1111-****-****-4444 5555 6666 7777''"
  by code_simp

lemma pass1_email: "\<not> MatchString re_email ''1111-****-****-4444 5555 6666 7777''"
  by code_simp

lemma pass1_phone: "\<not> MatchString re_phone ''1111-****-****-4444 5555 6666 7777''"
  by code_simp

lemma pass1_token: "\<not> MatchString re_token ''1111-****-****-4444 5555 6666 7777''"
  by code_simp

lemma sanitizeString_two_cards:
  "sanitizeString two_cards = ''1111-****-****-4444 5555 6666 7777''"
  using pass1_card pass1_id17 pass1_id16 pass1_email [THEN ReplaceAllString_no_match]
    pass1_phone pass1_token
  by (rule sanitizeString_card_email)

text \<open>The second application finds the last four digits of the masked number followed by
  three groups of four digits, and masks again.\<close>

lemma pass2_card:
  "ReplaceAllString re_card ''1111-****-****-4444 5555 6666 7777'' [Ref 1, Lit ''-****-****-'', Ref 2]
     = ''1111-****-****-4444-****-****-7777''"
  by code_simp

lemma pass2_id17: "\<not> MatchString re_id17 ''1111-****-****-4444-****-****-7777''"
  by code_simp

lemma pass2_id16: "\<not> MatchString re_id16 ''1111-****-****-4444-****-****-7777''"
  by code_simp

lemma pass2_email: "\<not> MatchString re_email ''1111-****-****-4444-****-****-7777''"
  by code_simp

lemma pass2_phone: "\<not> MatchString re_phone ''1111-****-****-4444-****-****-7777''"
  by code_simp

lemma pass2_token: "\<not> MatchString re_token ''1111-****-****-4444-****-****-7777''"
  by code_simp

lemma sanitizeString_two_cards_again:
  "sanitizeString ''1111-****-****-4444 5555 6666 7777'' = ''1111-****-****-4444-****-****-7777''"
  using pass2_card pass2_id17 pass2_id16 pass2_email [THEN ReplaceAllString_no_match]
    pass2_phone pass2_token
  by (rule sanitizeString_card_email)

text \<open>
  Claim C2 fails: on the text "1111 2222 3333 4444 5555 6666 7777" the second application
  of \<open>sanitizeString\<close> changes the result of the first.
\<close>

theorem sanitizeString_not_idempotent:
  "sanitizeString (sanitizeString two_cards) \<noteq> sanitizeString two_cards"
  by (simp add: sanitizeString_two_cards sanitizeString_two_cards_again)

text \<open>
  Claim C2, amended. \<open>sanitizeString\<close> leaves unchanged a text in which none of its six
  patterns has a match. So it is idempotent at every input whose masked output contains
  no match of any of the six patterns: applying it twice to such an input gives the same
  result as applying it once.
\<close>

theorem sanitizeString_idempotent_if_clean:
  assumes "\<forall>re \<in> set sanitize_patterns. \<not> MatchString re (sanitizeString x)"
  shows "sanitizeString (sanitizeString x) = sanitizeString x"
  using assms by (rule sanitizeString_no_match)

lemma mail1_card:
  "ReplaceAllString re_card card_and_mail [Ref 1, Lit ''-****-****-'', Ref 2]
     = ''4111-****-****-1111 alice@example.com''"
  by code_simp

lemma mail1_id17: "\<not> MatchString re_id17 ''4111-****-****-1111 alice@example.com''"
  by code_simp

lemma mail1_id16: "\<not> MatchString re_id16 ''4111-****-****-1111 alice@example.com''"
  by code_simp

lemma mail1_email:
  "ReplaceAllString re_email ''4111-****-****-1111 alice@example.com'' [Ref 1, Lit ''****'', Ref 2]
     = ''4111-****-****-1111 al****@example.com''"
  by code_simp

lemma mail2_card: "\<not> MatchString re_card ''4111-****-****-1111 al****@example.com''"
  by code_simp

lemma mail2_id17: "\<not> MatchString re_id17 ''4111-****-****-1111 al****@example.com''"
  by code_simp

lemma mail2_id16: "\<not> MatchString re_id16 ''4111-****-****-1111 al****@example.com''"
  by code_simp

lemma mail2_email: "\<not> MatchString re_email ''4111-****-****-1111 al****@example.com''"
  by code_simp

lemma mail2_phone: "\<not> MatchString re_phone ''4111-****-****-1111 al****@example.com''"
  by code_simp

lemma mail2_token: "\<not> MatchString re_token ''4111-****-****-1111 al****@example.com''"
  by code_simp

lemma sanitizeString_card_and_mail:
  "sanitizeString card_and_mail = ''4111-****-****-1111 al****@example.com''"
  using mail1_card mail1_id17 mail1_id16 mail1_email mail2_phone mail2_token
  by (rule sanitizeString_card_email)

theorem sanitizeString_idempotent_if_clean_witness:
  "sanitizeString card_and_mail = ''4111-****-****-1111 al****@example.com''
   \<and> list_all (\<lambda>re. \<not> MatchString re (sanitizeString card_and_mail)) sanitize_patterns
   \<and> sanitizeString (sanitizeString card_and_mail) = sanitizeString card_and_mail"
proof -
  have clean: "\<forall>re \<in> set sanitize_patterns. \<not> MatchString re (sanitizeString card_and_mail)"
    by (simp add: sanitizeString_card_and_mail sanitize_patterns_def mail2_card mail2_id17
          mail2_id16 mail2_email mail2_phone mail2_token)
  from sanitizeString_idempotent_if_clean [OF clean] clean show ?thesis
    by (simp add: sanitizeString_card_and_mail list_all_iff)
qed

end
